theory Spec2Isabelle
  imports Main
begin

section \<open>The marshalling layer of go-hdf5: attributes and datasets\<close>

text \<open>
  The theory embeds \<^verbatim>\<open>h5a.go\<close> (type \<^verbatim>\<open>Attribute\<close>), its second variant of the same file
  (\<^verbatim>\<open>unnamed/part_000\<close>) and \<^verbatim>\<open>h5d.go\<close> (type \<^verbatim>\<open>Dataset\<close>).

  The HDF5 C library behind cgo is not part of the program. It is a parameter: a record
  \<open>env\<close> of functions that answer every C call from the history of the calls made so
  far. Every C call the Go code makes is appended to that history, so that "no transfer
  was invoked" and "the handle was closed" are statements about the history.
\<close>

subsection \<open>Handles, Go types and Go values\<close>

type_synonym hid_t = int
type_synonym herr_t = int

text \<open>
  \<^verbatim>\<open>type Attribute Identifier\<close>, \<^verbatim>\<open>type Dataset Identifier\<close>: a wrapper holds the field
  \<^verbatim>\<open>id\<close>. The field is called \<open>hid\<close> here, \<open>id\<close> being the identity function of HOL.
  \<^verbatim>\<open>Datatype\<close> and \<^verbatim>\<open>Dataspace\<close> are declared outside the three files; the code reads
  only their field \<^verbatim>\<open>id\<close>, so they are the same record.
\<close>

record Identifier =
  hid :: hid_t

type_synonym Attribute = Identifier
type_synonym Dataset = Identifier
type_synonym Datatype = Identifier
type_synonym Dataspace = Identifier

text \<open>
  \<^verbatim>\<open>reflect.Kind\<close>, as far as the code tells kinds apart: the switches of the three files
  have the cases \<^verbatim>\<open>Array\<close>, \<^verbatim>\<open>String\<close>, \<^verbatim>\<open>Slice\<close>, \<^verbatim>\<open>Ptr\<close> and \<^verbatim>\<open>default\<close>; every
  other kind is \<open>Other\<close> with its name. \<open>Invalid\<close> is the kind of \<^verbatim>\<open>reflect.ValueOf(nil)\<close>.
\<close>

datatype Kind = Invalid | Array | Slice | String | Ptr | Other string

text \<open>
  \<^verbatim>\<open>reflect.Type\<close>: \<open>Basic n\<close> is a type that is neither an array, a slice, a string nor a
  pointer (\<^verbatim>\<open>int\<close>, \<^verbatim>\<open>float64\<close>, a struct, ...), identified by its name.
\<close>

datatype Type = Basic string | TString | ArrayOf nat Type | SliceOf Type | PtrTo Type

fun Kind_of_Type :: "Type \<Rightarrow> Kind" where
  "Kind_of_Type (Basic n) = Other n"
| "Kind_of_Type TString = String"
| "Kind_of_Type (ArrayOf n t) = Array"
| "Kind_of_Type (SliceOf t) = Slice"
| "Kind_of_Type (PtrTo t) = Ptr"

text \<open>
  What \<^verbatim>\<open>data interface{}\<close> can hold. A scalar carries its memory content as an integer.
  A slice is its header: the element type, the backing array from the \<^verbatim>\<open>Data\<close> pointer on
  (its length is \<^verbatim>\<open>Cap\<close>) and \<^verbatim>\<open>Len\<close>. A non-nil pointer is given by what it points to, so
  that a function writing through the pointer returns the pointer with the new content.
\<close>

datatype Value =
    VNil
  | VOther string int
  | VString string
  | VArray Type "Value list"
  | VSlice Type "Value list" nat
  | VPtr Value
  | VNilPtr Type

fun Type_of :: "Value \<Rightarrow> Type" where
  "Type_of VNil = Basic ''invalid''"
| "Type_of (VOther n p) = Basic n"
| "Type_of (VString s) = TString"
| "Type_of (VArray t xs) = ArrayOf (length xs) t"
| "Type_of (VSlice t b n) = SliceOf t"
| "Type_of (VPtr x) = PtrTo (Type_of x)"
| "Type_of (VNilPtr t) = PtrTo t"

fun Kind_of :: "Value \<Rightarrow> Kind" where
  "Kind_of VNil = Invalid"
| "Kind_of v = Kind_of_Type (Type_of v)"

text \<open>The zero value of a type: what \<^verbatim>\<open>reflect.MakeSlice\<close> fills a fresh slice with.\<close>

fun zero_of :: "Type \<Rightarrow> Value" where
  "zero_of (Basic n) = VOther n 0"
| "zero_of TString = VString []"
| "zero_of (ArrayOf n t) = VArray t (replicate n (zero_of t))"
| "zero_of (SliceOf t) = VSlice t [] 0"
| "zero_of (PtrTo t) = VNilPtr t"

subsection \<open>Errors, panics and the C library\<close>

text \<open>
  One constructor for each \<^verbatim>\<open>fmt.Errorf\<close> of the three files, with the values it prints:
  \<open>InvalidTarget\<close> is "Read (non-pointer %v)" printing \<^verbatim>\<open>v.Kind()\<close>, \<open>InvalidSource\<close> the
  same message of \<^verbatim>\<open>Write\<close> printing \<^verbatim>\<open>v.Type()\<close>, \<open>TypeMismatch\<close> is "Attribute type
  %v can't be stored in %v", \<open>DatatypeError\<close> is "Datatype error: %v", \<open>TypeQueryFailed\<close>
  is "couldn't open Datatype from Dataset %q". \<open>UnsupportedType\<close> and \<open>H5Error\<close> are
  the errors of the functions outside the three files.
\<close>

datatype error =
    InvalidTarget Kind
  | InvalidSource Type
  | TypeMismatch Type Type
  | DatatypeError error
  | TypeQueryFailed string
  | UnsupportedType Type
  | H5Error int

datatype panic = NilDereference | DivideByZero | OutOfRange | ZeroValue | Unaddressable

text \<open>A Go function returning \<^verbatim>\<open>error\<close> either returns (\<open>None\<close> is \<^verbatim>\<open>nil\<close>) or panics.\<close>

datatype outcome = Return "error option" | Panic panic

text \<open>
  The address handed to a raw transfer, given by the memory it points to: a sequence of
  Go values (an array, the backing array of a slice, one scalar), the bytes of a string
  (\<^verbatim>\<open>StringHeader.Data\<close>), a string variable (\<^verbatim>\<open>&buf\<close>, the address of the header), or
  the null address.
\<close>

datatype buffer = Cells "Value list" | Bytes string | StrVar string | NullAddr

datatype call =
    H5Aclose hid_t
  | H5Dclose hid_t
  | H5Tclose hid_t
  | H5Aget_type hid_t
  | H5Dget_type hid_t
  | H5Aget_storage_size hid_t
  | H5Aread hid_t hid_t buffer
  | H5Awrite hid_t hid_t buffer
  | H5Dread hid_t hid_t hid_t hid_t buffer
  | H5Dwrite hid_t hid_t hid_t hid_t buffer
  | Derive Type

text \<open>The history: every call with the value it returned, the most recent first.\<close>

type_synonym event = "call \<times> int"
type_synonym world = "event list"

text \<open>
  The library and the Go functions declared outside the three files, as parameters.
  \<open>status\<close> is the value a C call returns, \<open>filled_cells\<close> and \<open>filled_bytes\<close> are what
  a raw read writes at the address it is given. \<open>h5err\<close>, \<open>GoType\<close>, \<open>Size\<close> and \<open>Name\<close>
  are the Go functions of these names (\<^verbatim>\<open>h5err\<close>, \<^verbatim>\<open>Datatype.GoType\<close>, \<^verbatim>\<open>Datatype.Size\<close>,
  \<^verbatim>\<open>Identifier.Name\<close>), taken as functions of the status code or of the handle.
  \<open>derive\<close> is the type mapper: the handle of the storage type of a Go type, if there is
  one.
\<close>

record env =
  status :: "world \<Rightarrow> call \<Rightarrow> int"
  filled_cells :: "world \<Rightarrow> call \<Rightarrow> Value list"
  filled_bytes :: "world \<Rightarrow> call \<Rightarrow> string"
  h5err :: "herr_t \<Rightarrow> error option"
  GoType :: "hid_t \<Rightarrow> Type"
  Size :: "hid_t \<Rightarrow> int"
  Name :: "hid_t \<Rightarrow> string"
  derive :: "world \<Rightarrow> Type \<Rightarrow> hid_t option"

text \<open>One C call: ask the library, record the call and its answer.\<close>

definition ffi :: "env \<Rightarrow> call \<Rightarrow> world \<Rightarrow> int \<times> world" where
  "ffi env c w = (status env w c, (c, status env w c) # w)"

subsection \<open>Close\<close>

text \<open>
  \<^verbatim>\<open>func (s *Attribute) Close() error\<close> (h5a.go, the same in part_000) and
  \<^verbatim>\<open>func (s *Dataset) Close() error\<close> (h5d.go). The result is the error, the wrapper
  after the call and the history after the call.
\<close>

definition Attribute_Close :: "env \<Rightarrow> Attribute \<Rightarrow> world \<Rightarrow> error option \<times> Attribute \<times> world" where
  "Attribute_Close env s w =
     (if hid s = 0 then (None, s, w)
      else let (rc, w') = ffi env (H5Aclose (hid s)) w;
               err = h5err env rc
           in (err, s\<lparr>hid := 0\<rparr>, w'))"

definition Dataset_Close :: "env \<Rightarrow> Dataset \<Rightarrow> world \<Rightarrow> error option \<times> Dataset \<times> world" where
  "Dataset_Close env s w =
     (if hid s = 0 then (None, s, w)
      else let (rc, w') = ffi env (H5Dclose (hid s)) w;
               err = h5err env rc
           in (err, s\<lparr>hid := 0\<rparr>, w'))"

subsection \<open>Go arithmetic, strings and deferred calls\<close>

text \<open>
  \<^verbatim>\<open>int(x)\<close> of a 64-bit C integer: the value modulo \<open>2^64\<close>, read as signed. \<^verbatim>\<open>a / b\<close>
  on \<^verbatim>\<open>int\<close> truncates towards zero and wraps; the caller handles \<^verbatim>\<open>b == 0\<close>, where Go
  panics.
\<close>

definition go_int :: "int \<Rightarrow> int" where
  "go_int x = signed_take_bit 63 x"

definition go_quo :: "int \<Rightarrow> int \<Rightarrow> int" where
  "go_quo a b = go_int (sgn a * sgn b * (\<bar>a\<bar> div \<bar>b\<bar>))"

text \<open>\<^verbatim>\<open>strings.Trim(s, cutset)\<close>: all leading and all trailing characters of the cutset go.\<close>

definition Trim :: "string \<Rightarrow> string \<Rightarrow> string" where
  "Trim s cutset =
     rev (dropWhile (\<lambda>c. c \<in> set cutset) (rev (dropWhile (\<lambda>c. c \<in> set cutset) s)))"

abbreviation NUL :: char where
  "NUL \<equiv> CHR 0x00"

text \<open>
  A raw read writes a sequence of cells (or bytes) from the address on. The memory of the
  object at the address is as long as the object; what lies behind it is not modelled.
\<close>

definition overlay :: "'a list \<Rightarrow> 'a list \<Rightarrow> 'a list" where
  "overlay new old = take (length old) new @ drop (length new) old"

definition read_cells :: "env \<Rightarrow> call \<Rightarrow> Value list \<Rightarrow> world \<Rightarrow> int \<times> Value list \<times> world" where
  "read_cells env c old w =
     (status env w c, overlay (filled_cells env w c) old, (c, status env w c) # w)"

text \<open>
  \<^verbatim>\<open>defer f()\<close>: the deferred call runs when the function returns or panics. Its result is
  dropped; if it panics, the function panics.
\<close>

definition deferred :: "outcome \<Rightarrow> outcome \<Rightarrow> outcome" where
  "deferred r d = (case d of Panic p \<Rightarrow> Panic p | Return e \<Rightarrow> r)"

subsection \<open>The functions on storage types\<close>

text \<open>
  Modelled from the spec: \<^verbatim>\<open>Datatype.Close\<close> is declared outside the three files. The spec
  (4.5): all resource-owning wrappers implement \<open>Close\<close> idempotent, safe on a zero or
  already-closed handle, with one uniform handle-closing discipline. So it is
  \<^verbatim>\<open>Attribute.Close\<close> with the call \<^verbatim>\<open>H5Tclose\<close>. The receiver is a pointer; reading
  \<^verbatim>\<open>s.id\<close> through \<^verbatim>\<open>nil\<close> is Go's nil pointer dereference. The wrapper is a temporary of
  the caller, so only the outcome and the history are returned.
\<close>

definition Datatype_Close :: "env \<Rightarrow> Datatype option \<Rightarrow> world \<Rightarrow> outcome \<times> world" where
  "Datatype_Close env t w =
     (case t of
        None \<Rightarrow> (Panic NilDereference, w)
      | Some s \<Rightarrow>
          if hid s = 0 then (Return None, w)
          else let (rc, w') = ffi env (H5Tclose (hid s)) w
               in (Return (h5err env rc), w'))"

text \<open>
  Modelled from the spec: \<^verbatim>\<open>NewDataTypeFromType\<close> is declared outside the three files. The
  spec (4.1): \<open>DeriveStorageType(processType) -> StorageType|Error\<close>, failing with
  \<open>UnsupportedType\<close> for a kind without a mapping; every derived storage type is a fresh
  owned handle. The Go function returns a pair \<^verbatim>\<open>(*Datatype, error)\<close>: the pointer is
  \<^verbatim>\<open>nil\<close> when the error is not.
\<close>

definition NewDataTypeFromType ::
    "env \<Rightarrow> Type \<Rightarrow> world \<Rightarrow> (Datatype option \<times> error option) \<times> world" where
  "NewDataTypeFromType env t w =
     (case derive env w t of
        None \<Rightarrow> ((None, Some (UnsupportedType t)), w)
      | Some h \<Rightarrow> ((Some \<lparr>hid = h\<rparr>, None), (Derive t, h) # w))"

text \<open>
  \<^verbatim>\<open>func (s *Attribute) GetType() *Datatype\<close>. \<^verbatim>\<open>newDatatype\<close> is declared outside the three
  files; as \<^verbatim>\<open>newAttribute\<close> and \<^verbatim>\<open>newDataset\<close> do, it returns the address of a fresh
  wrapper of the handle, never \<^verbatim>\<open>nil\<close>.
\<close>

definition Attribute_GetType :: "env \<Rightarrow> Attribute \<Rightarrow> world \<Rightarrow> Datatype \<times> world" where
  "Attribute_GetType env s w =
     (let (ftype, w') = ffi env (H5Aget_type (hid s)) w in (\<lparr>hid = ftype\<rparr>, w'))"

text \<open>
  \<^verbatim>\<open>func (s *Dataset) Datatype() (*Datatype, error)\<close>.
\<close>

definition Dataset_Datatype ::
    "env \<Rightarrow> Dataset \<Rightarrow> world \<Rightarrow> (Datatype option \<times> error option) \<times> world" where
  "Dataset_Datatype env s w =
     (let (dtype_id, w') = ffi env (H5Dget_type (hid s)) w
      in if dtype_id < 0 then ((None, Some (TypeQueryFailed (Name env (hid s)))), w')
         else ((Some \<lparr>hid = dtype_id\<rparr>, None), w'))"

subsection \<open>Attribute.Read (h5a.go)\<close>

text \<open>
  \<^verbatim>\<open>func (s *Attribute) Read(data interface{}) error\<close>. The result is the outcome, the
  argument after the call (the pointer with what it now points to) and the history.
  One equation for each case of the switch on \<^verbatim>\<open>v.Elem().Kind()\<close>; the last equation is
  the first \<^verbatim>\<open>if\<close>: \<^verbatim>\<open>data\<close> is not a pointer, or is a nil pointer. In each equation
  \<open>typ\<close> is queried first and its \<open>Close\<close> runs last, as \<^verbatim>\<open>defer typ.Close()\<close> says.

  In the slice case \<^verbatim>\<open>SetLen(ln)\<close> panics for a negative \<^verbatim>\<open>ln\<close>; in the string case
  \<^verbatim>\<open>Slice(0, ln)\<close> does.
\<close>

fun Attribute_Read :: "env \<Rightarrow> Attribute \<Rightarrow> Value \<Rightarrow> world \<Rightarrow> outcome \<times> Value \<times> world" where
  "Attribute_Read env s (VPtr (VArray t xs)) w =
     (let (typ, w1) = Attribute_GetType env s w;
          (r, x, w2) =
            (if length xs = 0 then (Return None, VArray t xs, w1)
             else if t \<noteq> GoType env (hid typ)
               then (Return (Some (TypeMismatch (GoType env (hid typ)) t)), VArray t xs, w1)
             else let (rc, ys, w2) = read_cells env (H5Aread (hid s) (hid typ) (Cells xs)) xs w1
                  in (Return (h5err env rc), VArray t ys, w2));
          (d, w3) = Datatype_Close env (Some typ) w2
      in (deferred r d, VPtr x, w3))"
| "Attribute_Read env s (VPtr (VString str)) w =
     (let (typ, w1) = Attribute_GetType env s w;
          (r, x, w2) =
            (if Kind_of_Type (GoType env (hid typ)) \<noteq> String
               then (Return (Some (TypeMismatch (GoType env (hid typ)) TString)), VString str, w1)
             else let (sz, w2) = ffi env (H5Aget_storage_size (hid s)) w1;
                      ln = go_int sz
                  in if ln \<le> int (length str) \<and> ln < 0 then (Panic OutOfRange, VString str, w2)
                     else let buf = (if ln \<le> int (length str) then take (nat ln) str
                                     else replicate (nat ln) NUL);
                              c = H5Aread (hid s) (hid typ) (StrVar buf);
                              (rc, w3) = ffi env c w2;
                              buf' = filled_bytes env w2 c
                          in if h5err env rc \<noteq> None then (Return (h5err env rc), VString str, w3)
                             else (Return None, VString (Trim buf' [NUL]), w3));
          (d, w3) = Datatype_Close env (Some typ) w2
      in (deferred r d, VPtr x, w3))"
| "Attribute_Read env s (VPtr (VSlice t b n)) w =
     (let (typ, w1) = Attribute_GetType env s w;
          (r, x, w2) =
            (if t \<noteq> GoType env (hid typ)
               then (Return (Some (TypeMismatch (GoType env (hid typ)) t)), VSlice t b n, w1)
             else let (sz, w2) = ffi env (H5Aget_storage_size (hid s)) w1
                  in if go_int (Size env (hid typ)) = 0 then (Panic DivideByZero, VSlice t b n, w2)
                     else let ln = go_quo (go_int sz) (go_int (Size env (hid typ)))
                          in if ln \<le> int (length b) \<and> ln < 0 then (Panic OutOfRange, VSlice t b n, w2)
                             else let b' = (if ln \<le> int (length b) then b
                                            else replicate (nat ln) (zero_of t));
                                      (rc, ys, w3) =
                                        read_cells env (H5Aread (hid s) (hid typ) (Cells b')) b' w2
                                  in (Return (h5err env rc), VSlice t ys (nat ln), w3));
          (d, w3) = Datatype_Close env (Some typ) w2
      in (deferred r d, VPtr x, w3))"
| "Attribute_Read env s (VPtr (VPtr y)) w =
     (let (typ, w1) = Attribute_GetType env s w;
          (r, x, w2) = Attribute_Read env s (VPtr y) w1;
          (d, w3) = Datatype_Close env (Some typ) w2
      in (deferred r d, VPtr x, w3))"
| "Attribute_Read env s (VPtr (VNilPtr t)) w =
     (let (typ, w1) = Attribute_GetType env s w;
          (r, x, w2) = Attribute_Read env s (VNilPtr t) w1;
          (d, w3) = Datatype_Close env (Some typ) w2
      in (deferred r d, VPtr x, w3))"
| "Attribute_Read env s (VPtr x) w =
     (let (typ, w1) = Attribute_GetType env s w;
          (r, x', w2) =
            (if Type_of x \<noteq> GoType env (hid typ)
               then (Return (Some (TypeMismatch (GoType env (hid typ)) (Type_of x))), x, w1)
             else let c = H5Aread (hid s) (hid typ) (Cells [x]);
                      (rc, w2) = ffi env c w1
                  in (Return (h5err env rc),
                      (case filled_cells env w1 c of [] \<Rightarrow> x | y # ys \<Rightarrow> y), w2));
          (d, w3) = Datatype_Close env (Some typ) w2
      in (deferred r d, VPtr x', w3))"
| "Attribute_Read env s v w = (Return (Some (InvalidTarget (Kind_of v))), v, w)"

subsection \<open>Attribute.Read (the variant of part_000)\<close>

text \<open>
  Modelled from the spec: \<^verbatim>\<open>Datatype.Size\<close> is declared outside the three files. The spec
  (glossary): a storage type is an on-disk type descriptor with a defined byte size; the
  size belongs to the handle. The receiver is a pointer; reading its handle through
  \<^verbatim>\<open>nil\<close> is a nil pointer dereference.
\<close>

definition Datatype_Size :: "env \<Rightarrow> Datatype option \<Rightarrow> panic + int" where
  "Datatype_Size env t = (case t of None \<Rightarrow> Inl NilDereference | Some s \<Rightarrow> Inr (Size env (hid s)))"

text \<open>
  The end of the function, after the switch: \<^verbatim>\<open>defer typ.Close()\<close>, then the check of
  \<^verbatim>\<open>err\<close>, then the raw read at \<^verbatim>\<open>addr\<close> (the cells \<open>xs\<close>). The deferred call is
  registered before \<^verbatim>\<open>err\<close> is looked at, so it runs on the error path too.
\<close>

definition Attribute_Read_tail ::
    "env \<Rightarrow> Attribute \<Rightarrow> Datatype option \<times> error option \<Rightarrow> Value list \<Rightarrow> world
       \<Rightarrow> outcome \<times> Value list \<times> world" where
  "Attribute_Read_tail env s te xs w =
     (let (typ, err) = te;
          (r, ys, w1) =
            (if err \<noteq> None then (Return err, xs, w)
             else case typ of
                    None \<Rightarrow> (Panic NilDereference, xs, w)
                  | Some t \<Rightarrow>
                      let (rc, ys, w1) = read_cells env (H5Aread (hid s) (hid t) (Cells xs)) xs w
                      in (Return (h5err env rc), ys, w1));
          (d, w2) = Datatype_Close env typ w1
      in (deferred r d, ys, w2))"

fun Attribute_Read_part000 ::
    "env \<Rightarrow> Attribute \<Rightarrow> Value \<Rightarrow> world \<Rightarrow> outcome \<times> Value \<times> world" where
  "Attribute_Read_part000 env s (VPtr (VArray t xs)) w =
     (if length xs = 0 then (Return None, VPtr (VArray t xs), w)
      else let (te, w1) = NewDataTypeFromType env t w;
               (r, ys, w2) = Attribute_Read_tail env s te xs w1
           in (r, VPtr (VArray t ys), w2))"
| "Attribute_Read_part000 env s (VPtr (VString str)) w =
     (let ((typ, err), w1) = NewDataTypeFromType env TString w;
          (sz, w2) = ffi env (H5Aget_storage_size (hid s)) w1;
          ln = go_int sz
      in if ln \<le> int (length str) \<and> ln < 0 then (Panic OutOfRange, VPtr (VString str), w2)
         else case typ of
                None \<Rightarrow> (Panic NilDereference, VPtr (VString str), w2)
              | Some t \<Rightarrow>
                  let buf = (if ln \<le> int (length str) then take (nat ln) str
                             else replicate (nat ln) NUL);
                      c = H5Aread (hid s) (hid t) (StrVar buf);
                      (rc, w3) = ffi env c w2;
                      buf' = filled_bytes env w2 c
                  in if h5err env rc \<noteq> None then (Return (h5err env rc), VPtr (VString str), w3)
                     else (Return None, VPtr (VString (Trim buf' [NUL])), w3))"
| "Attribute_Read_part000 env s (VPtr (VSlice t b n)) w =
     (let ((typ, err), w1) = NewDataTypeFromType env t w;
          (sz, w2) = ffi env (H5Aget_storage_size (hid s)) w1
      in case Datatype_Size env typ of
           Inl p \<Rightarrow> (Panic p, VPtr (VSlice t b n), w2)
         | Inr esz \<Rightarrow>
             if go_int esz = 0 then (Panic DivideByZero, VPtr (VSlice t b n), w2)
             else let ln = go_quo (go_int sz) (go_int esz)
                  in if ln \<le> int (length b) \<and> ln < 0
                       then (Panic OutOfRange, VPtr (VSlice t b n), w2)
                     else let b' = (if ln \<le> int (length b) then b
                                    else replicate (nat ln) (zero_of t));
                              (r, ys, w3) = Attribute_Read_tail env s (typ, err) b' w2
                          in (r, VPtr (VSlice t ys (nat ln)), w3))"
| "Attribute_Read_part000 env s (VPtr (VPtr y)) w =
     (let (r, x, w1) = Attribute_Read_part000 env s (VPtr y) w in (r, VPtr x, w1))"
| "Attribute_Read_part000 env s (VPtr (VNilPtr t)) w =
     (let (r, x, w1) = Attribute_Read_part000 env s (VNilPtr t) w in (r, VPtr x, w1))"
| "Attribute_Read_part000 env s (VPtr x) w =
     (let (te, w1) = NewDataTypeFromType env (Type_of x) w;
          (r, ys, w2) = Attribute_Read_tail env s te [x] w1
      in (r, VPtr (case ys of [] \<Rightarrow> x | y # zs \<Rightarrow> y), w2))"
| "Attribute_Read_part000 env s v w = (Return (Some (InvalidTarget (Kind_of v))), v, w)"

subsection \<open>Attribute.Write\<close>

text \<open>
  \<^verbatim>\<open>func (s *Attribute) Write(data interface{}) error\<close>, the same in h5a.go and in
  part_000 but for the text of the first message. \<open>Write\<close> does not change its argument:
  the result is the outcome and the history. The message of the first \<^verbatim>\<open>if\<close> prints
  \<^verbatim>\<open>v.Type()\<close>, which panics on the zero Value of \<^verbatim>\<open>reflect.ValueOf(nil)\<close>. There is no
  call of \<open>Close\<close> on \<^verbatim>\<open>dtype\<close> in the function.
\<close>

definition Attribute_Write_tail ::
    "env \<Rightarrow> Attribute \<Rightarrow> Type \<Rightarrow> buffer \<Rightarrow> world \<Rightarrow> outcome \<times> world" where
  "Attribute_Write_tail env s t addr w =
     (let ((dtype, err), w1) = NewDataTypeFromType env t w
      in case err of
           Some e \<Rightarrow> (Return (Some (DatatypeError e)), w1)
         | None \<Rightarrow>
             (case dtype of
                None \<Rightarrow> (Panic NilDereference, w1)
              | Some d \<Rightarrow>
                  let (rc, w2) = ffi env (H5Awrite (hid s) (hid d) addr) w1
                  in (Return (h5err env rc), w2)))"

fun Attribute_Write :: "env \<Rightarrow> Attribute \<Rightarrow> Value \<Rightarrow> world \<Rightarrow> outcome \<times> world" where
  "Attribute_Write env s (VPtr (VArray t xs)) w =
     Attribute_Write_tail env s (Type_of (VArray t xs)) (Cells xs) w"
| "Attribute_Write env s (VPtr (VString str)) w =
     Attribute_Write_tail env s (Type_of (VString str)) (StrVar str) w"
| "Attribute_Write env s (VPtr (VSlice t b n)) w =
     Attribute_Write_tail env s (Type_of (VSlice t b n)) (Cells b) w"
| "Attribute_Write env s (VPtr (VPtr y)) w = Attribute_Write env s (VPtr y) w"
| "Attribute_Write env s (VPtr (VNilPtr t)) w = Attribute_Write env s (VNilPtr t) w"
| "Attribute_Write env s (VPtr x) w =
     Attribute_Write_tail env s (Type_of x) (Cells [x]) w"
| "Attribute_Write env s VNil w = (Panic ZeroValue, w)"
| "Attribute_Write env s v w = (Return (Some (InvalidSource (Type_of v))), w)"

subsection \<open>Dataset.ReadSubset, Dataset.Read\<close>

definition read_bytes :: "env \<Rightarrow> call \<Rightarrow> string \<Rightarrow> world \<Rightarrow> int \<times> string \<times> world" where
  "read_bytes env c old w =
     (status env w c, overlay (filled_bytes env w c) old, (c, status env w c) # w)"

text \<open>\<^verbatim>\<open>if memspace != nil { m_id = memspace.id }\<close>, from \<^verbatim>\<open>m_id = 0\<close>.\<close>

definition space_id :: "Dataspace option \<Rightarrow> hid_t" where
  "space_id sp = (case sp of None \<Rightarrow> 0 | Some d \<Rightarrow> hid d)"

text \<open>
  The end of \<^verbatim>\<open>ReadSubset\<close>, after the switch: \<^verbatim>\<open>defer typ.Close()\<close>, the check of
  \<^verbatim>\<open>err\<close>, the two shape handles and \<^verbatim>\<open>H5Dread\<close> at \<^verbatim>\<open>addr\<close>. \<open>rd\<close> is the raw read for
  the kind of memory at the address (\<open>read_cells\<close> or \<open>read_bytes\<close>) and \<open>buf\<close> the
  address as the call records it.
\<close>

definition Dataset_ReadSubset_tail ::
    "env \<Rightarrow> Dataset \<Rightarrow> Datatype option \<times> error option \<Rightarrow> Dataspace option \<Rightarrow> Dataspace option
       \<Rightarrow> (call \<Rightarrow> 'a list \<Rightarrow> world \<Rightarrow> int \<times> 'a list \<times> world) \<Rightarrow> ('a list \<Rightarrow> buffer) \<Rightarrow> 'a list
       \<Rightarrow> world \<Rightarrow> outcome \<times> 'a list \<times> world" where
  "Dataset_ReadSubset_tail env s te memspace filespace rd buf xs w =
     (let (typ, err) = te;
          (r, ys, w1) =
            (if err \<noteq> None then (Return err, xs, w)
             else case typ of
                    None \<Rightarrow> (Panic NilDereference, xs, w)
                  | Some t \<Rightarrow>
                      let (rc, ys, w1) =
                            rd (H5Dread (hid s) (hid t) (space_id memspace) (space_id filespace)
                                  (buf xs)) xs w
                      in (Return (h5err env rc), ys, w1));
          (d, w2) = Datatype_Close env typ w1
      in (deferred r d, ys, w2))"

text \<open>
  \<^verbatim>\<open>func (s *Dataset) ReadSubset(data interface{}, memspace, filespace *Dataspace) error\<close>.
  No case of the switch looks at the length of the destination or asks the library for
  a storage size, and nothing follows the raw read.
\<close>

fun Dataset_ReadSubset ::
    "env \<Rightarrow> Dataset \<Rightarrow> Value \<Rightarrow> Dataspace option \<Rightarrow> Dataspace option \<Rightarrow> world
       \<Rightarrow> outcome \<times> Value \<times> world" where
  "Dataset_ReadSubset env s (VPtr (VArray t xs)) memspace filespace w =
     (let (te, w1) = NewDataTypeFromType env t w;
          (r, ys, w2) =
            Dataset_ReadSubset_tail env s te memspace filespace (read_cells env) Cells xs w1
      in (r, VPtr (VArray t ys), w2))"
| "Dataset_ReadSubset env s (VPtr (VSlice t b n)) memspace filespace w =
     (let (te, w1) = NewDataTypeFromType env t w;
          (r, ys, w2) =
            Dataset_ReadSubset_tail env s te memspace filespace (read_cells env) Cells b w1
      in (r, VPtr (VSlice t ys n), w2))"
| "Dataset_ReadSubset env s (VPtr (VString str)) memspace filespace w =
     (let (te, w1) = NewDataTypeFromType env TString w;
          (r, str', w2) =
            Dataset_ReadSubset_tail env s te memspace filespace (read_bytes env) Bytes str w1
      in (r, VPtr (VString str'), w2))"
| "Dataset_ReadSubset env s (VPtr (VPtr y)) memspace filespace w =
     (let (r, x, w1) = Dataset_ReadSubset env s (VPtr y) memspace filespace w
      in (r, VPtr x, w1))"
| "Dataset_ReadSubset env s (VPtr (VNilPtr t)) memspace filespace w =
     (let (r, x, w1) = Dataset_ReadSubset env s (VNilPtr t) memspace filespace w
      in (r, VPtr x, w1))"
| "Dataset_ReadSubset env s (VPtr x) memspace filespace w =
     (let (te, w1) = NewDataTypeFromType env (Type_of x) w;
          (r, ys, w2) =
            Dataset_ReadSubset_tail env s te memspace filespace (read_cells env) Cells [x] w1
      in (r, VPtr (case ys of [] \<Rightarrow> x | y # zs \<Rightarrow> y), w2))"
| "Dataset_ReadSubset env s v memspace filespace w =
     (Return (Some (InvalidTarget (Kind_of v))), v, w)"

definition Dataset_Read :: "env \<Rightarrow> Dataset \<Rightarrow> Value \<Rightarrow> world \<Rightarrow> outcome \<times> Value \<times> world" where
  "Dataset_Read env s data w = Dataset_ReadSubset env s data None None w"

subsection \<open>Dataset.WriteSubset, Dataset.Write\<close>

text \<open>
  The switch of \<^verbatim>\<open>WriteSubset\<close> on \<^verbatim>\<open>v := reflect.Indirect(reflect.ValueOf(data))\<close>: the
  address, or the panic of \<^verbatim>\<open>UnsafeAddr\<close>. Under a pointer \<^verbatim>\<open>v\<close> is what it points to;
  for a nil pointer and for \<^verbatim>\<open>nil\<close> it is the zero Value; for any other \<^verbatim>\<open>data\<close> it is
  \<^verbatim>\<open>data\<close> itself, which has no address. A pointer to a pointer takes the case
  \<^verbatim>\<open>reflect.Ptr\<close>: \<^verbatim>\<open>v.Pointer()\<close>, the address the inner pointer holds.
\<close>

fun WriteSubset_addr :: "Value \<Rightarrow> panic + buffer" where
  "WriteSubset_addr (VPtr (VArray t xs)) = Inr (Cells xs)"
| "WriteSubset_addr (VPtr (VSlice t b n)) = Inr (Cells b)"
| "WriteSubset_addr (VPtr (VString str)) = Inr (Bytes str)"
| "WriteSubset_addr (VPtr (VPtr y)) = Inr (Cells [y])"
| "WriteSubset_addr (VPtr (VNilPtr t)) = Inr NullAddr"
| "WriteSubset_addr (VPtr x) = Inr (Cells [x])"
| "WriteSubset_addr (VNilPtr t) = Inl ZeroValue"
| "WriteSubset_addr VNil = Inl ZeroValue"
| "WriteSubset_addr v = Inl Unaddressable"

text \<open>
  \<^verbatim>\<open>func (s *Dataset) WriteSubset(data interface{}, memspace, filespace *Dataspace) error\<close>.
  \<^verbatim>\<open>defer dtype.Close()\<close> comes before the check of \<^verbatim>\<open>err\<close>.
\<close>

definition Dataset_WriteSubset ::
    "env \<Rightarrow> Dataset \<Rightarrow> Value \<Rightarrow> Dataspace option \<Rightarrow> Dataspace option \<Rightarrow> world \<Rightarrow> outcome \<times> world" where
  "Dataset_WriteSubset env s data memspace filespace w =
     (let ((dtype, err), w1) = Dataset_Datatype env s w;
          (r, w2) =
            (if err \<noteq> None then (Return err, w1)
             else case WriteSubset_addr data of
                    Inl p \<Rightarrow> (Panic p, w1)
                  | Inr addr \<Rightarrow>
                      (case dtype of
                         None \<Rightarrow> (Panic NilDereference, w1)
                       | Some t \<Rightarrow>
                           let (rc, w2) =
                                 ffi env (H5Dwrite (hid s) (hid t) (space_id memspace)
                                            (space_id filespace) addr) w1
                           in (Return (h5err env rc), w2)));
          (d, w3) = Datatype_Close env dtype w2
      in (deferred r d, w3))"

definition Dataset_Write :: "env \<Rightarrow> Dataset \<Rightarrow> Value \<Rightarrow> world \<Rightarrow> outcome \<times> world" where
  "Dataset_Write env s data w = Dataset_WriteSubset env s data None None w"

subsection \<open>Storage types that are open\<close>

text \<open>
  The handles of storage types obtained in a history (queried with \<^verbatim>\<open>H5Aget_type\<close> or
  \<^verbatim>\<open>H5Dget_type\<close>, or derived) and not handed to \<^verbatim>\<open>H5Tclose\<close> since. An answer of the
  library that is not positive is not a handle.
\<close>

fun open_types :: "world \<Rightarrow> hid_t list" where
  "open_types [] = []"
| "open_types ((H5Tclose h, r) # w) = removeAll h (open_types w)"
| "open_types ((H5Aget_type a, r) # w) = (if 0 < r then r # open_types w else open_types w)"
| "open_types ((H5Dget_type a, r) # w) = (if 0 < r then r # open_types w else open_types w)"
| "open_types ((Derive t, r) # w) = r # open_types w"
| "open_types (e # w) = open_types w"

text \<open>The raw transfers of a history.\<close>

fun is_transfer :: "call \<Rightarrow> bool" where
  "is_transfer (H5Aread a t b) = True"
| "is_transfer (H5Awrite a t b) = True"
| "is_transfer (H5Dread a t m f b) = True"
| "is_transfer (H5Dwrite a t m f b) = True"
| "is_transfer c = False"

definition transfers :: "world \<Rightarrow> call list" where
  "transfers w = filter is_transfer (map fst w)"

subsection \<open>The conditions of the code\<close>

text \<open>\<^verbatim>\<open>v.IsNil()\<close>, which the code calls on values of kind \<^verbatim>\<open>Ptr\<close> only.\<close>

fun IsNil :: "Value \<Rightarrow> bool" where
  "IsNil (VNilPtr t) = True"
| "IsNil v = False"

text \<open>
  The Go type that the cases of the three \<open>Read\<close> functions look at, for what the
  destination points to: \<^verbatim>\<open>v.Type().Elem().Elem()\<close> under an array or a slice,
  \<^verbatim>\<open>v.Type().Elem()\<close> otherwise.
\<close>

fun transfer_type :: "Value \<Rightarrow> Type" where
  "transfer_type (VArray t xs) = t"
| "transfer_type (VSlice t b n) = t"
| "transfer_type v = Type_of v"

text \<open>What a chain of pointers that are not nil leads to.\<close>

fun pointee :: "Value \<Rightarrow> Value" where
  "pointee (VPtr x) = pointee x"
| "pointee v = v"

text \<open>
  The cells at the address that the switches of \<open>Write\<close> and \<open>Read\<close> take for what the
  pointer points to: the cells of an array, the backing array of a slice, the value
  itself otherwise.
\<close>

fun elements :: "Value \<Rightarrow> Value list" where
  "elements (VArray t xs) = xs"
| "elements (VSlice t b n) = b"
| "elements v = [v]"

text \<open>The cases \<^verbatim>\<open>reflect.Array\<close> and \<^verbatim>\<open>default\<close> of the switches: an array or a scalar.\<close>

fun fixed_shape :: "Value \<Rightarrow> bool" where
  "fixed_shape (VOther n p) = True"
| "fixed_shape (VArray t xs) = True"
| "fixed_shape v = False"

subsection \<open>Libraries to run the code against\<close>

text \<open>
  A library where every raw read of a dataset and every close of a record fails with
  \<open>-1\<close>; every Go type has the storage type \<open>7\<close>, every attribute has the type \<open>7\<close> (an
  \<^verbatim>\<open>int\<close> of 8 bytes) and 40 bytes of storage. \<open>h5err\<close> turns a negative status into an
  error.
\<close>

definition lib_failing :: env where
  "lib_failing =
     \<lparr> status = (\<lambda>w c. case c of
                    H5Dread a t m f b \<Rightarrow> - 1 | H5Aclose a \<Rightarrow> - 1 | H5Dclose a \<Rightarrow> - 1
                  | H5Aget_type a \<Rightarrow> 7 | H5Aget_storage_size a \<Rightarrow> 40 | _ \<Rightarrow> 0),
       filled_cells = (\<lambda>w c. []),
       filled_bytes = (\<lambda>w c. []),
       h5err = (\<lambda>rc. if rc < 0 then Some (H5Error rc) else None),
       GoType = (\<lambda>h. Basic ''int''),
       Size = (\<lambda>h. 8),
       Name = (\<lambda>h. ''d''),
       derive = (\<lambda>w t. Some 7) \<rparr>"

text \<open>A library that answers \<open>-1\<close> to every call and has a storage type for no Go type.\<close>

definition lib_refusing :: env where
  "lib_refusing =
     \<lparr> status = (\<lambda>w c. - 1),
       filled_cells = (\<lambda>w c. []),
       filled_bytes = (\<lambda>w c. []),
       h5err = (\<lambda>rc. if rc < 0 then Some (H5Error rc) else None),
       GoType = (\<lambda>h. Basic ''int''),
       Size = (\<lambda>h. 8),
       Name = (\<lambda>h. ''d''),
       derive = (\<lambda>w t. None) \<rparr>"

text \<open>
  A library where every call succeeds. Attribute 4 has the type \<open>8\<close>, a string, and 8
  bytes of storage; every other attribute has the type \<open>7\<close>, an \<^verbatim>\<open>int\<close> of 8 bytes, and
  40 bytes of storage. A raw read delivers the five cells \<open>1, ..., 5\<close>, or the bytes
  \<^verbatim>\<open>hello\<close> followed by three padding characters.
\<close>

definition lib_ok :: env where
  "lib_ok =
     \<lparr> status = (\<lambda>w c. case c of
                    H5Aget_type a \<Rightarrow> (if a = 4 then 8 else 7)
                  | H5Dget_type a \<Rightarrow> (if a = 6 then 8 else 7)
                  | H5Aget_storage_size a \<Rightarrow> (if a = 4 then 8 else 40)
                  | _ \<Rightarrow> 0),
       filled_cells = (\<lambda>w c. map (VOther ''int'') [1, 2, 3, 4, 5]),
       filled_bytes = (\<lambda>w c. ''hello'' @ [NUL, NUL, NUL]),
       h5err = (\<lambda>rc. if rc < 0 then Some (H5Error rc) else None),
       GoType = (\<lambda>h. if h = 8 then TString else Basic ''int''),
       Size = (\<lambda>h. 8),
       Name = (\<lambda>h. ''d''),
       derive = (\<lambda>w t. Some (if t = TString then 8 else 7)) \<rparr>"

text \<open>
  A library that keeps what it is given: a raw read delivers what the most recent raw
  write of the history handed over, a text padded to the 8 bytes of storage. Attribute 4
  and dataset 6 have the string type \<open>8\<close>, every other record the type \<open>7\<close>, an \<^verbatim>\<open>int\<close>.
\<close>

fun last_written :: "world \<Rightarrow> buffer" where
  "last_written [] = NullAddr"
| "last_written ((H5Awrite a t b, r) # w) = b"
| "last_written ((H5Dwrite a t m f b, r) # w) = b"
| "last_written (e # w) = last_written w"

definition lib_echo :: env where
  "lib_echo =
     \<lparr> status = (\<lambda>w c. case c of
                    H5Aget_type a \<Rightarrow> (if a = 4 then 8 else 7)
                  | H5Dget_type a \<Rightarrow> (if a = 6 then 8 else 7)
                  | H5Aget_storage_size a \<Rightarrow> 8
                  | _ \<Rightarrow> 0),
       filled_cells = (\<lambda>w c. case last_written w of Cells xs \<Rightarrow> xs | _ \<Rightarrow> []),
       filled_bytes = (\<lambda>w c. case last_written w of
                                StrVar s \<Rightarrow> s @ replicate (8 - length s) NUL
                              | Bytes s \<Rightarrow> s
                              | _ \<Rightarrow> []),
       h5err = (\<lambda>rc. if rc < 0 then Some (H5Error rc) else None),
       GoType = (\<lambda>h. if h = 8 then TString else Basic ''int''),
       Size = (\<lambda>h. 8),
       Name = (\<lambda>h. ''d''),
       derive = (\<lambda>w t. Some (if t = TString then 8 else 7)) \<rparr>"

section \<open>Theorems\<close>

subsection \<open>Close\<close>

lemma Attribute_Close_closed:
  "hid s = 0 \<Longrightarrow> Attribute_Close env s w = (None, s, w)"
  by (simp add: Attribute_Close_def)

lemma Dataset_Close_closed:
  "hid s = 0 \<Longrightarrow> Dataset_Close env s w = (None, s, w)"
  by (simp add: Dataset_Close_def)

lemma Attribute_Close_hid:
  "hid (fst (snd (Attribute_Close env s w))) = 0"
  by (simp add: Attribute_Close_def ffi_def)

lemma Dataset_Close_hid:
  "hid (fst (snd (Dataset_Close env s w))) = 0"
  by (simp add: Dataset_Close_def ffi_def)

text \<open>
  C6. A second \<open>Close\<close> after a first \<open>Close\<close>, on an attribute and on a dataset, returns
  \<^verbatim>\<open>nil\<close>, makes no call to the library and leaves the wrapper as the first \<open>Close\<close> left
  it; this whatever the first \<open>Close\<close> returned and whatever happened in between
  (the second call may start from any history \<open>w'\<close>).
\<close>

theorem Close_twice:
  "Attribute_Close env (fst (snd (Attribute_Close env s w))) w'
     = (None, fst (snd (Attribute_Close env s w)), w')
   \<and> Dataset_Close env (fst (snd (Dataset_Close env d w))) w'
     = (None, fst (snd (Dataset_Close env d w)), w')"
  by (simp add: Attribute_Close_closed Attribute_Close_hid Dataset_Close_closed Dataset_Close_hid)

text \<open>
  C10. \<open>Close\<close> on an open attribute or dataset hands the handle to the library once,
  returns what \<open>h5err\<close> makes of the status, and leaves the stored handle at 0 whatever
  that status was. From then on every \<open>Close\<close>, from any history \<open>w'\<close>, returns \<^verbatim>\<open>nil\<close>
  and calls nothing: the error is reported once and the handle is never closed twice.
\<close>

theorem Close_clears_handle:
  assumes "hid s \<noteq> 0" and "hid d \<noteq> 0"
  shows "Attribute_Close env s w =
           (h5err env (status env w (H5Aclose (hid s))), s\<lparr>hid := 0\<rparr>,
            (H5Aclose (hid s), status env w (H5Aclose (hid s))) # w)
         \<and> Attribute_Close env (s\<lparr>hid := 0\<rparr>) w' = (None, s\<lparr>hid := 0\<rparr>, w')
         \<and> Dataset_Close env d w =
           (h5err env (status env w (H5Dclose (hid d))), d\<lparr>hid := 0\<rparr>,
            (H5Dclose (hid d), status env w (H5Dclose (hid d))) # w)
         \<and> Dataset_Close env (d\<lparr>hid := 0\<rparr>) w' = (None, d\<lparr>hid := 0\<rparr>, w')"
  using assms by (simp add: Attribute_Close_def Dataset_Close_def ffi_def)

theorem Close_clears_handle_witness:
  "Attribute_Close lib_failing \<lparr>hid = 3\<rparr> []
     = (Some (H5Error (- 1)), \<lparr>hid = 0\<rparr>, [(H5Aclose 3, - 1)])
   \<and> Attribute_Close lib_failing \<lparr>hid = 0\<rparr> [(H5Aclose 3, - 1)]
     = (None, \<lparr>hid = 0\<rparr>, [(H5Aclose 3, - 1)])
   \<and> Dataset_Close lib_failing \<lparr>hid = 4\<rparr> []
     = (Some (H5Error (- 1)), \<lparr>hid = 0\<rparr>, [(H5Dclose 4, - 1)])
   \<and> Dataset_Close lib_failing \<lparr>hid = 0\<rparr> [(H5Dclose 4, - 1)]
     = (None, \<lparr>hid = 0\<rparr>, [(H5Dclose 4, - 1)])"
  using Close_clears_handle [of "\<lparr>hid = 3\<rparr>" "\<lparr>hid = 4\<rparr>" lib_failing "[]" "[(H5Aclose 3, - 1)]"]
    Close_clears_handle [of "\<lparr>hid = 3\<rparr>" "\<lparr>hid = 4\<rparr>" lib_failing "[]" "[(H5Dclose 4, - 1)]"]
  by (simp add: lib_failing_def)

subsection \<open>Deferred calls, transfers and the type mapper\<close>

lemma Datatype_Close_Some_deferred:
  "deferred r (fst (Datatype_Close env (Some t) w)) = r"
  by (simp add: Datatype_Close_def deferred_def ffi_def)

lemma Datatype_Close_None:
  "Datatype_Close env None w = (Panic NilDereference, w)"
  by (simp add: Datatype_Close_def)

lemma deferred_Panic: "deferred r (Panic p) = Panic p"
  by (simp add: deferred_def)

lemma transfers_Cons:
  "transfers ((c, r) # w) = (if is_transfer c then c # transfers w else transfers w)"
  by (simp add: transfers_def)

lemma transfers_Datatype_Close:
  "transfers (snd (Datatype_Close env t w)) = transfers w"
  by (simp add: Datatype_Close_def ffi_def transfers_Cons split: option.splits)

lemma NewDataTypeFromType_fails:
  "derive env w t = None \<Longrightarrow> NewDataTypeFromType env t w = ((None, Some (UnsupportedType t)), w)"
  by (simp add: NewDataTypeFromType_def)

lemma NewDataTypeFromType_ok:
  "derive env w t = Some h \<Longrightarrow>
     NewDataTypeFromType env t w = ((Some \<lparr>hid = h\<rparr>, None), (Derive t, h) # w)"
  by (simp add: NewDataTypeFromType_def)

lemma overlay_Nil [simp]: "overlay new [] = []"
  by (simp add: overlay_def)

lemma length_overlay [simp]: "length (overlay new old) = length old"
  by (simp add: overlay_def)

subsection \<open>Read needs a pointer that is not nil\<close>

text \<open>
  C8. When the argument of \<open>Read\<close> is not a pointer or is a nil pointer (the condition of
  the first \<^verbatim>\<open>if\<close>), \<open>Attribute.Read\<close> in both variants, \<open>Dataset.ReadSubset\<close> and
  \<open>Dataset.Read\<close> return the error "non-pointer" with the kind of the argument; the
  argument and the history are as before, so the library was not called at all.
\<close>

theorem Read_requires_pointer:
  assumes "Kind_of data \<noteq> Ptr \<or> IsNil data"
  shows "Attribute_Read env s data w = (Return (Some (InvalidTarget (Kind_of data))), data, w)
       \<and> Attribute_Read_part000 env s data w
            = (Return (Some (InvalidTarget (Kind_of data))), data, w)
       \<and> Dataset_ReadSubset env d data memspace filespace w
            = (Return (Some (InvalidTarget (Kind_of data))), data, w)
       \<and> Dataset_Read env d data w = (Return (Some (InvalidTarget (Kind_of data))), data, w)"
  using assms by (cases data) (simp_all add: Dataset_Read_def)

theorem Read_requires_pointer_witness:
  "Kind_of (VOther ''int'' 5) \<noteq> Ptr
   \<and> Attribute_Read lib_failing \<lparr>hid = 3\<rparr> (VOther ''int'' 5) []
       = (Return (Some (InvalidTarget (Other ''int''))), VOther ''int'' 5, [])
   \<and> Dataset_Read lib_failing \<lparr>hid = 3\<rparr> (VOther ''int'' 5) []
       = (Return (Some (InvalidTarget (Other ''int''))), VOther ''int'' 5, [])
   \<and> IsNil (VNilPtr TString)
   \<and> Attribute_Read lib_failing \<lparr>hid = 3\<rparr> (VNilPtr TString) []
       = (Return (Some (InvalidTarget Ptr)), VNilPtr TString, [])
   \<and> Dataset_Read lib_failing \<lparr>hid = 3\<rparr> (VNilPtr TString) []
       = (Return (Some (InvalidTarget Ptr)), VNilPtr TString, [])"
  using Read_requires_pointer
      [of "VOther ''int'' 5" lib_failing "\<lparr>hid = 3\<rparr>" "[]" "\<lparr>hid = 3\<rparr>" None None]
    Read_requires_pointer
      [of "VNilPtr TString" lib_failing "\<lparr>hid = 3\<rparr>" "[]" "\<lparr>hid = 3\<rparr>" None None]
  by simp

subsection \<open>The deferred Close and a failed derivation\<close>

lemma Dataset_ReadSubset_tail_nil:
  "fst (Dataset_ReadSubset_tail env d (None, Some e) m f rd buf xs w) = Panic NilDereference"
  by (simp add: Dataset_ReadSubset_tail_def Datatype_Close_None deferred_Panic)

lemma Attribute_Read_tail_nil:
  "fst (Attribute_Read_tail env s (None, Some e) xs w) = Panic NilDereference"
  by (simp add: Attribute_Read_tail_def Datatype_Close_None deferred_Panic)

lemma Dataset_ReadSubset_nil:
  assumes "derive env w (transfer_type x) = None" and "Kind_of x \<noteq> Ptr"
  shows "fst (Dataset_ReadSubset env d (VPtr x) m f w) = Panic NilDereference"
  using assms
  by (cases x)
    (simp_all add: NewDataTypeFromType_fails Dataset_ReadSubset_tail_nil case_prod_beta)

lemma Attribute_Read_part000_nil:
  assumes "derive env w (transfer_type x) = None" and "Kind_of x \<noteq> Ptr"
    and "\<forall>t. x \<noteq> VArray t []" and "Kind_of x \<noteq> String"
  shows "fst (Attribute_Read_part000 env s (VPtr x) w) = Panic NilDereference"
  using assms
  by (cases x)
    (simp_all add: NewDataTypeFromType_fails Attribute_Read_tail_nil Datatype_Size_def ffi_def
      case_prod_beta Let_def)

lemma Dataset_WriteSubset_nil:
  assumes "status env w (H5Dget_type (hid d)) < 0"
  shows "fst (Dataset_WriteSubset env d data m f w) = Panic NilDereference"
  using assms
  by (simp add: Dataset_WriteSubset_def Dataset_Datatype_def ffi_def Datatype_Close_None
      deferred_Panic)

text \<open>
  C9. In \<open>Dataset.ReadSubset\<close> (and \<open>Dataset.Read\<close>) the \<open>Close\<close> of the derived storage
  type is deferred before the error of the derivation is looked at: when the derivation
  fails, for a destination that is a pointer to an array, a slice, a string or a scalar,
  the call does not return the error but panics with a nil pointer dereference.
  \<open>Dataset.WriteSubset\<close> (and \<open>Dataset.Write\<close>) does so when the query of the type of the
  dataset fails, whatever the data. The variant of \<open>Attribute.Read\<close> in part_000 does so
  for arrays that are not empty and for scalars; for a slice it panics in the same way
  one step earlier, when the size of the nil storage type is asked for (its string case
  reads the handle of the nil storage type without deferring any \<open>Close\<close>, and is left
  out here).
\<close>

theorem deferred_Close_before_error_check:
  "(derive env w (transfer_type x) = None \<and> Kind_of x \<noteq> Ptr \<longrightarrow>
      fst (Dataset_ReadSubset env d (VPtr x) memspace filespace w) = Panic NilDereference
      \<and> fst (Dataset_Read env d (VPtr x) w) = Panic NilDereference
      \<and> ((\<forall>t. x \<noteq> VArray t []) \<and> Kind_of x \<noteq> String \<longrightarrow>
           fst (Attribute_Read_part000 env s (VPtr x) w) = Panic NilDereference))
   \<and> (status env w (H5Dget_type (hid d)) < 0 \<longrightarrow>
      fst (Dataset_WriteSubset env d data memspace filespace w) = Panic NilDereference
      \<and> fst (Dataset_Write env d data w) = Panic NilDereference)"
  by (simp add: Dataset_ReadSubset_nil Attribute_Read_part000_nil Dataset_WriteSubset_nil
      Dataset_Read_def Dataset_Write_def)

theorem deferred_Close_before_error_check_witness:
  "derive lib_refusing [] (transfer_type (VOther ''int'' 0)) = None
   \<and> Kind_of (VOther ''int'' 0) \<noteq> Ptr
   \<and> (\<forall>t. VOther ''int'' 0 \<noteq> VArray t []) \<and> Kind_of (VOther ''int'' 0) \<noteq> String
   \<and> status lib_refusing [] (H5Dget_type (hid \<lparr>hid = 3\<rparr>)) < 0
   \<and> fst (Dataset_ReadSubset lib_refusing \<lparr>hid = 3\<rparr> (VPtr (VOther ''int'' 0)) None None [])
       = Panic NilDereference
   \<and> fst (Attribute_Read_part000 lib_refusing \<lparr>hid = 5\<rparr> (VPtr (VOther ''int'' 0)) [])
       = Panic NilDereference
   \<and> fst (Dataset_WriteSubset lib_refusing \<lparr>hid = 3\<rparr> (VPtr (VOther ''int'' 42)) None None [])
       = Panic NilDereference"
  using deferred_Close_before_error_check
    [of lib_refusing "[]" "VOther ''int'' 0" "\<lparr>hid = 3\<rparr>" None None "\<lparr>hid = 5\<rparr>"
       "VPtr (VOther ''int'' 42)"]
  by (simp add: lib_refusing_def)

subsection \<open>A destination array of length zero\<close>

text \<open>
  C7, as the code has it. For a destination that is a pointer to an array of length zero,
  \<open>Attribute.Read\<close> returns \<^verbatim>\<open>nil\<close>, makes no raw transfer and leaves the destination as
  it was: the variant of h5a.go queries the type of the attribute and closes it, the
  variant of part_000 calls nothing. \<open>Dataset.ReadSubset\<close> has no such case: when the
  element type has a storage type, it calls \<^verbatim>\<open>H5Dread\<close> at the address of the array and
  returns what \<open>h5err\<close> makes of the status; the array, having no cell, is as before.
\<close>

theorem Read_zero_length_array:
  "fst (Attribute_Read env s (VPtr (VArray t [])) w) = Return None
   \<and> fst (snd (Attribute_Read env s (VPtr (VArray t [])) w)) = VPtr (VArray t [])
   \<and> transfers (snd (snd (Attribute_Read env s (VPtr (VArray t [])) w))) = transfers w
   \<and> Attribute_Read_part000 env s (VPtr (VArray t [])) w = (Return None, VPtr (VArray t []), w)
   \<and> (derive env w t = Some h \<longrightarrow>
        fst (Dataset_ReadSubset env d (VPtr (VArray t [])) memspace filespace w)
          = Return (h5err env (status env ((Derive t, h) # w)
               (H5Dread (hid d) h (space_id memspace) (space_id filespace) (Cells []))))
        \<and> fst (snd (Dataset_ReadSubset env d (VPtr (VArray t [])) memspace filespace w))
          = VPtr (VArray t [])
        \<and> transfers (snd (snd (Dataset_ReadSubset env d (VPtr (VArray t [])) memspace filespace w)))
          = H5Dread (hid d) h (space_id memspace) (space_id filespace) (Cells []) # transfers w)"
  by (simp add: Attribute_GetType_def ffi_def case_prod_beta Datatype_Close_Some_deferred
      transfers_Datatype_Close transfers_Cons NewDataTypeFromType_ok Dataset_ReadSubset_tail_def
      read_cells_def)

theorem Read_zero_length_array_witness:
  "derive lib_failing [] (Basic ''int'') = Some 7
   \<and> fst (Attribute_Read lib_failing \<lparr>hid = 3\<rparr> (VPtr (VArray (Basic ''int'') [])) [])
       = Return None
   \<and> fst (Dataset_ReadSubset lib_failing \<lparr>hid = 3\<rparr> (VPtr (VArray (Basic ''int'') []))
            None None [])
       = Return (Some (H5Error (- 1)))
   \<and> transfers (snd (snd (Dataset_ReadSubset lib_failing \<lparr>hid = 3\<rparr>
                              (VPtr (VArray (Basic ''int'') [])) None None [])))
       = [H5Dread 3 7 0 0 (Cells [])]"
  using Read_zero_length_array
    [of lib_failing "\<lparr>hid = 3\<rparr>" "Basic ''int''" "[]" 7 "\<lparr>hid = 3\<rparr>" None None]
  by (simp add: lib_failing_def space_id_def transfers_def)

text \<open>
  C7 as stated fails for datasets: \<open>Dataset.Read\<close> into an array of length zero invokes
  the raw read, and returns its error.
\<close>

theorem Dataset_Read_zero_length_array_transfers:
  "fst (Dataset_Read lib_failing \<lparr>hid = 3\<rparr> (VPtr (VArray (Basic ''int'') [])) [])
     = Return (Some (H5Error (- 1)))
   \<and> transfers (snd (snd (Dataset_Read lib_failing \<lparr>hid = 3\<rparr>
                              (VPtr (VArray (Basic ''int'') [])) [])))
     = [H5Dread 3 7 0 0 (Cells [])]"
  by (simp add: lib_failing_def Dataset_Read_def NewDataTypeFromType_def
      Dataset_ReadSubset_tail_def read_cells_def Datatype_Close_def ffi_def deferred_def
      space_id_def transfers_def)

subsection \<open>Attribute.Read checks the type it queried\<close>

lemma Kind_String: "Kind_of_Type t = String \<longleftrightarrow> t = TString"
  by (cases t) simp_all

lemma Attribute_Read_transfers:
  "transfers (snd (snd (Attribute_Read env s data w))) = transfers w
   \<or> (\<exists>h buf. transfers (snd (snd (Attribute_Read env s data w))) = H5Aread (hid s) h buf # transfers w
        \<and> GoType env h = transfer_type (pointee data))"
proof (induction env s data w rule: Attribute_Read.induct)
  case (1 env s t xs w)
  then show ?case
    by (simp add: Attribute_GetType_def ffi_def case_prod_beta transfers_Datatype_Close
        transfers_Cons read_cells_def)
next
  case (2 env s str w)
  then show ?case
    by (simp add: Attribute_GetType_def ffi_def case_prod_beta transfers_Datatype_Close
        transfers_Cons Let_def Kind_String)
next
  case (3 env s t b n w)
  then show ?case
    by (simp add: Attribute_GetType_def ffi_def case_prod_beta transfers_Datatype_Close
        transfers_Cons read_cells_def Let_def)
next
  case (4 env s y w)
  from "4.IH" [of "Attribute_GetType env s w" "fst (Attribute_GetType env s w)" "snd (Attribute_GetType env s w)"]
  show ?case
    by (simp add: Attribute_GetType_def ffi_def case_prod_beta transfers_Datatype_Close
        transfers_Cons)
next
  case (5 env s t w)
  then show ?case
    by (simp add: Attribute_GetType_def ffi_def case_prod_beta transfers_Datatype_Close
        transfers_Cons)
qed (simp_all add: Attribute_GetType_def ffi_def case_prod_beta transfers_Datatype_Close
    transfers_Cons Let_def)

lemma Attribute_Read_mismatch:
  assumes "\<forall>w'. GoType env (status env w' (H5Aget_type (hid s))) = T"
    and "Kind_of data = Ptr" and "Kind_of (pointee data) \<noteq> Ptr"
    and "transfer_type (pointee data) \<noteq> T" and "\<forall>t. pointee data \<noteq> VArray t []"
  shows "fst (Attribute_Read env s data w)
           = Return (Some (TypeMismatch T (transfer_type (pointee data))))
         \<and> fst (snd (Attribute_Read env s data w)) = data
         \<and> transfers (snd (snd (Attribute_Read env s data w))) = transfers w"
  using assms
proof (induction env s data w rule: Attribute_Read.induct)
  case (1 env s t xs w)
  then show ?case
    by (simp add: Attribute_GetType_def ffi_def case_prod_beta transfers_Datatype_Close
        transfers_Cons Datatype_Close_Some_deferred)
next
  case (2 env s str w)
  then show ?case
    by (simp add: Attribute_GetType_def ffi_def case_prod_beta transfers_Datatype_Close
        transfers_Cons Datatype_Close_Some_deferred Kind_String)
next
  case (3 env s t b n w)
  then show ?case
    by (simp add: Attribute_GetType_def ffi_def case_prod_beta transfers_Datatype_Close
        transfers_Cons Datatype_Close_Some_deferred)
next
  case (4 env s y w)
  from "4.IH" [of "Attribute_GetType env s w" "fst (Attribute_GetType env s w)" "snd (Attribute_GetType env s w)"]
    "4.prems"
  show ?case
    by (simp add: Attribute_GetType_def ffi_def case_prod_beta transfers_Datatype_Close
        transfers_Cons Datatype_Close_Some_deferred)
qed (simp_all add: Attribute_GetType_def ffi_def case_prod_beta transfers_Datatype_Close
    transfers_Cons Datatype_Close_Some_deferred)

text \<open>
  C4, as the code has it. \<open>Attribute.Read\<close> (h5a.go) queries the type of the attribute. It
  makes at most one raw transfer, and only with a queried type whose Go type is the
  element type of the destination (the type of the destination itself for a string or a
  scalar). When the attribute has the Go type \<open>T\<close>, the destination is a chain of non-nil
  pointers to something that is not a pointer, the element type is not \<open>T\<close> and the
  destination is not an array of length zero, the call returns the error "Attribute type
  \<open>T\<close> can't be stored in" the element type, with no transfer and the destination as it
  was.
\<close>

theorem Attribute_Read_validates_type:
  "(transfers (snd (snd (Attribute_Read env s data w))) = transfers w
    \<or> (\<exists>h buf. transfers (snd (snd (Attribute_Read env s data w)))
                    = H5Aread (hid s) h buf # transfers w
          \<and> GoType env h = transfer_type (pointee data)))
   \<and> ((\<forall>w'. GoType env (status env w' (H5Aget_type (hid s))) = T)
        \<and> Kind_of data = Ptr \<and> Kind_of (pointee data) \<noteq> Ptr
        \<and> transfer_type (pointee data) \<noteq> T \<and> (\<forall>t. pointee data \<noteq> VArray t []) \<longrightarrow>
       fst (Attribute_Read env s data w)
         = Return (Some (TypeMismatch T (transfer_type (pointee data))))
       \<and> fst (snd (Attribute_Read env s data w)) = data
       \<and> transfers (snd (snd (Attribute_Read env s data w))) = transfers w)"
  using Attribute_Read_transfers [of env s data w] Attribute_Read_mismatch [of env s T data w]
  by blast

theorem Attribute_Read_validates_type_witness:
  "(\<forall>w'. GoType lib_failing (status lib_failing w' (H5Aget_type (hid \<lparr>hid = 3\<rparr>))) = Basic ''int'')
   \<and> Kind_of (VPtr (VPtr (VSlice TString [] 0))) = Ptr
   \<and> Kind_of (pointee (VPtr (VPtr (VSlice TString [] 0)))) \<noteq> Ptr
   \<and> transfer_type (pointee (VPtr (VPtr (VSlice TString [] 0)))) \<noteq> Basic ''int''
   \<and> (\<forall>t. pointee (VPtr (VPtr (VSlice TString [] 0))) \<noteq> VArray t [])
   \<and> fst (Attribute_Read lib_failing \<lparr>hid = 3\<rparr> (VPtr (VPtr (VSlice TString [] 0))) [])
       = Return (Some (TypeMismatch (Basic ''int'') TString))
   \<and> transfers (snd (snd (Attribute_Read lib_failing \<lparr>hid = 3\<rparr>
                              (VPtr (VPtr (VSlice TString [] 0))) []))) = []"
  using Attribute_Read_validates_type
    [of lib_failing "\<lparr>hid = 3\<rparr>" "VPtr (VPtr (VSlice TString [] 0))" "[]" "Basic ''int''"]
  by (simp add: lib_failing_def transfers_def)

text \<open>
  C4 as stated fails for an array of length zero: the attribute is an \<^verbatim>\<open>int\<close>, the
  destination a \<^verbatim>\<open>[0]string\<close>, and \<open>Read\<close> returns \<^verbatim>\<open>nil\<close>, not the mismatch.
\<close>

theorem Attribute_Read_zero_length_array_mismatch:
  "GoType lib_failing (status lib_failing [] (H5Aget_type 3)) = Basic ''int''
   \<and> transfer_type (VArray TString []) = TString
   \<and> fst (Attribute_Read lib_failing \<lparr>hid = 3\<rparr> (VPtr (VArray TString [])) []) = Return None"
  by (simp add: lib_failing_def Attribute_GetType_def ffi_def Datatype_Close_def deferred_def)

subsection \<open>Slices\<close>

lemma go_int_in_range: "- (2 ^ 63) \<le> x \<Longrightarrow> x < 2 ^ 63 \<Longrightarrow> go_int x = x"
  by (simp add: go_int_def signed_take_bit_int_eq_self)

lemma go_quo_in_range:
  assumes "0 \<le> a" and "a < 2 ^ 63" and "0 < b" and "b < 2 ^ 63"
  shows "go_quo (go_int a) (go_int b) = a div b"
proof -
  have a: "go_int a = a" and b: "go_int b = b"
    using assms by (simp_all add: go_int_in_range)
  have "0 \<le> a div b" using assms by (simp add: pos_imp_zdiv_nonneg_iff)
  moreover have "a div b \<le> a" using assms by (simp add: zdiv_mono2 [of a 1 b, simplified])
  ultimately have q: "go_int (a div b) = a div b"
    using assms by (simp add: go_int_in_range)
  have "sgn a * sgn b * (\<bar>a\<bar> div \<bar>b\<bar>) = a div b"
    using assms by (cases "a = 0") (simp_all add: sgn_if)
  then show ?thesis by (simp add: go_quo_def a b q)
qed

text \<open>
  C2, as the code has it. For a destination slice \<open>b\<close> (of any length \<open>n\<close> and capacity)
  whose element type is the Go type of the attribute's type, \<open>Attribute.Read\<close> (h5a.go)
  asks for the storage size, divides it by the size of the type (\<open>ln\<close>; for sizes in the
  range of \<^verbatim>\<open>int\<close> this is \<open>sz div Size\<close>) and, unless the divisor is 0 or \<open>ln\<close> is negative
  (where Go panics), leaves a slice of length \<open>ln\<close>: on the backing array \<open>b\<close> when its
  capacity covers \<open>ln\<close>, on \<open>ln\<close> fresh zero cells otherwise. The raw read is handed that
  storage, after the resize. \<open>Dataset.ReadSubset\<close> does not resize: the destination
  keeps its length \<open>n\<close> and its backing array keeps its length.
\<close>

theorem Attribute_Read_resizes_slice:
  assumes "h = status env w (H5Aget_type (hid s))"
    and "sz = status env ((H5Aget_type (hid s), h) # w) (H5Aget_storage_size (hid s))"
    and "ln = go_quo (go_int sz) (go_int (Size env h))"
    and "b' = (if ln \<le> int (length b) then b else replicate (nat ln) (zero_of t))"
    and "c = H5Aread (hid s) h (Cells b')"
    and "w2 = (H5Aget_storage_size (hid s), sz) # (H5Aget_type (hid s), h) # w"
    and "GoType env h = t" and "go_int (Size env h) \<noteq> 0" and "0 \<le> ln"
  shows "fst (Attribute_Read env s (VPtr (VSlice t b n)) w) = Return (h5err env (status env w2 c))
       \<and> fst (snd (Attribute_Read env s (VPtr (VSlice t b n)) w))
           = VPtr (VSlice t (overlay (filled_cells env w2 c) b') (nat ln))
       \<and> transfers (snd (snd (Attribute_Read env s (VPtr (VSlice t b n)) w))) = c # transfers w
       \<and> nat ln \<le> length b'
       \<and> (0 \<le> sz \<and> sz < 2 ^ 63 \<and> 0 < Size env h \<and> Size env h < 2 ^ 63 \<longrightarrow> ln = sz div Size env h)
       \<and> (\<exists>ys. fst (snd (Dataset_ReadSubset env d (VPtr (VSlice t b n)) memspace filespace w))
                  = VPtr (VSlice t ys n) \<and> length ys = length b)"
proof -
  have 1: "fst (Attribute_Read env s (VPtr (VSlice t b n)) w) = Return (h5err env (status env w2 c))"
    using assms
    by (simp add: Attribute_GetType_def ffi_def case_prod_beta Let_def read_cells_def
        Datatype_Close_Some_deferred)
  have 2: "fst (snd (Attribute_Read env s (VPtr (VSlice t b n)) w))
           = VPtr (VSlice t (overlay (filled_cells env w2 c) b') (nat ln))"
    using assms
    by (simp add: Attribute_GetType_def ffi_def case_prod_beta Let_def read_cells_def)
  have 3: "transfers (snd (snd (Attribute_Read env s (VPtr (VSlice t b n)) w))) = c # transfers w"
    using assms
    by (simp add: Attribute_GetType_def ffi_def case_prod_beta Let_def read_cells_def
        transfers_Datatype_Close transfers_Cons)
  have 4: "nat ln \<le> length b'" using assms(4,9) by (simp add: nat_le_iff)
  have 5: "0 \<le> sz \<and> sz < 2 ^ 63 \<and> 0 < Size env h \<and> Size env h < 2 ^ 63 \<longrightarrow> ln = sz div Size env h"
    using assms(3) by (simp add: go_quo_in_range)
  have 6: "\<exists>ys. fst (snd (Dataset_ReadSubset env d (VPtr (VSlice t b n)) memspace filespace w))
                  = VPtr (VSlice t ys n) \<and> length ys = length b"
    by (simp add: case_prod_beta Dataset_ReadSubset_tail_def read_cells_def NewDataTypeFromType_def
        split: option.splits)
  from 1 2 3 4 5 6 show ?thesis by blast
qed

text \<open>
  C2 as stated fails for datasets: from the same dataset, a destination of length 0 comes
  back with length 0 and one of length 2 with length 2.
\<close>

theorem Dataset_Read_keeps_slice_length:
  "fst (snd (Dataset_Read lib_ok \<lparr>hid = 5\<rparr> (VPtr (VSlice (Basic ''int'') [] 0)) []))
     = VPtr (VSlice (Basic ''int'') [] 0)
   \<and> fst (snd (Dataset_Read lib_ok \<lparr>hid = 5\<rparr>
                 (VPtr (VSlice (Basic ''int'') [VOther ''int'' 0, VOther ''int'' 0] 2)) []))
     = VPtr (VSlice (Basic ''int'') [VOther ''int'' 1, VOther ''int'' 2] 2)"
  by (simp add: lib_ok_def Dataset_Read_def NewDataTypeFromType_def Dataset_ReadSubset_tail_def
      read_cells_def Datatype_Close_def ffi_def deferred_def space_id_def overlay_def)

theorem Attribute_Read_resizes_slice_witness:
  "GoType lib_ok 7 = Basic ''int'' \<and> go_int (Size lib_ok 7) \<noteq> 0
   \<and> fst (Attribute_Read lib_ok \<lparr>hid = 3\<rparr>
            (VPtr (VSlice (Basic ''int'') [VOther ''int'' 0, VOther ''int'' 0] 2)) []) = Return None
   \<and> fst (snd (Attribute_Read lib_ok \<lparr>hid = 3\<rparr>
                 (VPtr (VSlice (Basic ''int'') [VOther ''int'' 0, VOther ''int'' 0] 2)) []))
       = VPtr (VSlice (Basic ''int'')
           [VOther ''int'' 1, VOther ''int'' 2, VOther ''int'' 3, VOther ''int'' 4, VOther ''int'' 5] 5)
   \<and> transfers (snd (snd (Attribute_Read lib_ok \<lparr>hid = 3\<rparr>
                 (VPtr (VSlice (Basic ''int'') [VOther ''int'' 0, VOther ''int'' 0] 2)) [])))
       = [H5Aread 3 7 (Cells [VOther ''int'' 0, VOther ''int'' 0, VOther ''int'' 0,
                              VOther ''int'' 0, VOther ''int'' 0])]"
proof -
  let ?z = "VOther ''int'' 0"
  have h: "7 = status lib_ok [] (H5Aget_type (hid \<lparr>hid = 3\<rparr>))"
    by (simp add: lib_ok_def)
  have sz: "40 = status lib_ok ((H5Aget_type (hid \<lparr>hid = 3\<rparr>), 7) # [])
                   (H5Aget_storage_size (hid \<lparr>hid = 3\<rparr>))"
    by (simp add: lib_ok_def)
  have ln: "5 = go_quo (go_int 40) (go_int (Size lib_ok 7))"
    by (simp add: lib_ok_def go_int_def go_quo_def)
  have b': "[?z, ?z, ?z, ?z, ?z]
            = (if 5 \<le> int (length [?z, ?z]) then [?z, ?z]
               else replicate (nat 5) (zero_of (Basic ''int'')))"
    by (simp add: eval_nat_numeral)
  have g: "GoType lib_ok 7 = Basic ''int''" by (simp add: lib_ok_def)
  have e: "go_int (Size lib_ok 7) \<noteq> 0" by (simp add: lib_ok_def go_int_def)
  have f: "filled_cells lib_ok w c = map (VOther ''int'') [1, 2, 3, 4, 5]" for w c
    by (simp add: lib_ok_def)
  have st: "h5err lib_ok (status lib_ok w (H5Aread a t b)) = None" for w a t b
    by (simp add: lib_ok_def)
  have ov: "overlay [VOther ''int'' 1, VOther ''int'' 2, VOther ''int'' 3, VOther ''int'' 4,
                     VOther ''int'' 5] [?z, ?z, ?z, ?z, ?z]
            = [VOther ''int'' 1, VOther ''int'' 2, VOther ''int'' 3, VOther ''int'' 4,
               VOther ''int'' 5]"
    by (simp add: overlay_def)
  from Attribute_Read_resizes_slice [OF h sz ln b' refl refl g e, of 2 "\<lparr>hid = 5\<rparr>" None None]
  have "fst (Attribute_Read lib_ok \<lparr>hid = 3\<rparr> (VPtr (VSlice (Basic ''int'') [?z, ?z] 2)) [])
          = Return None
      \<and> fst (snd (Attribute_Read lib_ok \<lparr>hid = 3\<rparr> (VPtr (VSlice (Basic ''int'') [?z, ?z] 2)) []))
          = VPtr (VSlice (Basic ''int'') (map (VOther ''int'') [1, 2, 3, 4, 5]) 5)
      \<and> transfers (snd (snd (Attribute_Read lib_ok \<lparr>hid = 3\<rparr>
                                 (VPtr (VSlice (Basic ''int'') [?z, ?z] 2)) [])))
          = [H5Aread 3 7 (Cells [?z, ?z, ?z, ?z, ?z])]"
    by (simp add: f st ov transfers_def del: Attribute_Read.simps Dataset_ReadSubset.simps)
  with g e show ?thesis by simp
qed

subsection \<open>Trim\<close>

lemma Trim_decomp:
  "\<exists>p q. s = p @ Trim s cs @ q \<and> set p \<subseteq> set cs \<and> set q \<subseteq> set cs"
proof -
  let ?P = "\<lambda>c. c \<in> set cs"
  let ?m = "dropWhile ?P s"
  have 1: "s = takeWhile ?P s @ ?m" by simp
  have 2: "rev ?m = takeWhile ?P (rev ?m) @ dropWhile ?P (rev ?m)" by simp
  then have "?m = rev (dropWhile ?P (rev ?m)) @ rev (takeWhile ?P (rev ?m))"
    by (metis rev_append rev_rev_ident)
  then have 3: "?m = Trim s cs @ rev (takeWhile ?P (rev ?m))"
    by (simp add: Trim_def)
  have 4: "set (takeWhile ?P s) \<subseteq> set cs"
    by (auto dest: set_takeWhileD)
  have 5: "set (rev (takeWhile ?P (rev ?m))) \<subseteq> set cs"
    by (auto dest: set_takeWhileD)
  from 1 3 have "s = takeWhile ?P s @ Trim s cs @ rev (takeWhile ?P (rev ?m))"
    by metis
  with 4 5 show ?thesis by blast
qed

lemma Trim_ends:
  "Trim s cs = [] \<or> (hd (Trim s cs) \<notin> set cs \<and> last (Trim s cs) \<notin> set cs)"
proof (cases "Trim s cs = []")
  case True
  then show ?thesis by simp
next
  case False
  let ?P = "\<lambda>c. c \<in> set cs"
  let ?m = "dropWhile ?P s"
  let ?r = "dropWhile ?P (rev ?m)"
  from False have r: "?r \<noteq> []" by (simp add: Trim_def)
  then have l: "\<not> ?P (hd ?r)" by (rule hd_dropWhile)
  have "last (Trim s cs) = hd ?r" using r by (simp add: Trim_def last_rev)
  with l have last: "last (Trim s cs) \<notin> set cs" by simp
  from r have m: "?m \<noteq> []" by (cases "?m = []") simp_all
  then have hm: "\<not> ?P (hd ?m)" by (rule hd_dropWhile)
  obtain p where p: "?m = Trim s cs @ p"
    by (metis Trim_def rev_append rev_rev_ident takeWhile_dropWhile_id)
  with False have "hd (Trim s cs) = hd ?m" by (metis hd_append2)
  with hm have "hd (Trim s cs) \<notin> set cs" by simp
  with last show ?thesis by simp
qed

subsection \<open>Text\<close>

lemma Attribute_Read_VString:
  assumes "h = status env w (H5Aget_type (hid s))"
    and "sz = status env ((H5Aget_type (hid s), h) # w) (H5Aget_storage_size (hid s))"
    and "buf = (if go_int sz \<le> int (length str) then take (nat (go_int sz)) str
                else replicate (nat (go_int sz)) NUL)"
    and "c = H5Aread (hid s) h (StrVar buf)"
    and "w2 = (H5Aget_storage_size (hid s), sz) # (H5Aget_type (hid s), h) # w"
    and "Kind_of_Type (GoType env h) = String" and "0 \<le> go_int sz"
  shows "Attribute_Read env s (VPtr (VString str)) w
      = (if h5err env (status env w2 c) \<noteq> None then Return (h5err env (status env w2 c))
         else Return None,
         VPtr (VString (if h5err env (status env w2 c) \<noteq> None then str
                        else Trim (filled_bytes env w2 c) [NUL])),
         snd (Datatype_Close env (Some \<lparr>hid = h\<rparr>) ((c, status env w2 c) # w2)))"
proof (cases "go_int sz \<le> int (length str)")
  case True
  with assms have "buf = take (nat (go_int sz)) str" by simp
  with True assms(1,2,4,5,6,7) show ?thesis
    by (simp add: Attribute_GetType_def ffi_def case_prod_beta Let_def
        Datatype_Close_Some_deferred)
next
  case False
  with assms have "buf = replicate (nat (go_int sz)) NUL" by simp
  with False assms(1,2,4,5,6,7) show ?thesis
    by (simp add: Attribute_GetType_def ffi_def case_prod_beta Let_def
        Datatype_Close_Some_deferred)
qed

text \<open>
  C3, as the code has it. For a destination string \<open>str\<close> and an attribute whose type has
  the Go kind string, \<open>Attribute.Read\<close> (h5a.go) asks for the storage size \<open>sz\<close> and, unless
  \<^verbatim>\<open>int(sz)\<close> is negative (where Go panics), hands the raw read a buffer of that length:
  the first bytes of the destination when the destination covers it, padding characters
  otherwise. When the raw read succeeds the destination becomes what the library left
  in the buffer with all padding characters stripped from both ends (what is stripped is
  padding only, and the ends of what is kept are not padding); when it fails the error is
  returned and the destination is as before. \<open>Dataset.ReadSubset\<close> asks for no storage
  size and strips nothing: it reads into the bytes of the destination, which keeps its
  length.
\<close>

theorem Attribute_Read_text:
  assumes "h = status env w (H5Aget_type (hid s))"
    and "sz = status env ((H5Aget_type (hid s), h) # w) (H5Aget_storage_size (hid s))"
    and "buf = (if go_int sz \<le> int (length str) then take (nat (go_int sz)) str
                else replicate (nat (go_int sz)) NUL)"
    and "c = H5Aread (hid s) h (StrVar buf)"
    and "w2 = (H5Aget_storage_size (hid s), sz) # (H5Aget_type (hid s), h) # w"
    and "Kind_of_Type (GoType env h) = String" and "0 \<le> go_int sz"
  shows "length buf = nat (go_int sz)
       \<and> transfers (snd (snd (Attribute_Read env s (VPtr (VString str)) w))) = c # transfers w
       \<and> (h5err env (status env w2 c) = None \<longrightarrow>
            fst (Attribute_Read env s (VPtr (VString str)) w) = Return None
            \<and> fst (snd (Attribute_Read env s (VPtr (VString str)) w))
                = VPtr (VString (Trim (filled_bytes env w2 c) [NUL])))
       \<and> (h5err env (status env w2 c) \<noteq> None \<longrightarrow>
            fst (Attribute_Read env s (VPtr (VString str)) w) = Return (h5err env (status env w2 c))
            \<and> fst (snd (Attribute_Read env s (VPtr (VString str)) w)) = VPtr (VString str))
       \<and> (\<exists>p q. filled_bytes env w2 c = p @ Trim (filled_bytes env w2 c) [NUL] @ q
                \<and> set p \<subseteq> {NUL} \<and> set q \<subseteq> {NUL})
       \<and> (Trim (filled_bytes env w2 c) [NUL] = []
            \<or> (hd (Trim (filled_bytes env w2 c) [NUL]) \<noteq> NUL
                \<and> last (Trim (filled_bytes env w2 c) [NUL]) \<noteq> NUL))
       \<and> (\<exists>str'. fst (snd (Dataset_ReadSubset env d (VPtr (VString str)) memspace filespace w))
                    = VPtr (VString str') \<and> length str' = length str)"
proof -
  let ?rc = "status env w2 c"
  have eq: "Attribute_Read env s (VPtr (VString str)) w
      = (if h5err env ?rc \<noteq> None then Return (h5err env ?rc) else Return None,
         VPtr (VString (if h5err env ?rc \<noteq> None then str
                        else Trim (filled_bytes env w2 c) [NUL])),
         snd (Datatype_Close env (Some \<lparr>hid = h\<rparr>) ((c, ?rc) # w2)))"
    by (rule Attribute_Read_VString [OF assms])
  have 1: "length buf = nat (go_int sz)"
    using assms(3,7) by (simp add: nat_le_iff)
  have 2: "transfers (snd (snd (Attribute_Read env s (VPtr (VString str)) w))) = c # transfers w"
    unfolding eq using assms(4,5) by (simp add: transfers_Datatype_Close transfers_Cons)
  have 3: "h5err env (status env w2 c) = None \<longrightarrow>
            fst (Attribute_Read env s (VPtr (VString str)) w) = Return None
            \<and> fst (snd (Attribute_Read env s (VPtr (VString str)) w))
                = VPtr (VString (Trim (filled_bytes env w2 c) [NUL]))"
    unfolding eq by simp
  have 4: "h5err env (status env w2 c) \<noteq> None \<longrightarrow>
            fst (Attribute_Read env s (VPtr (VString str)) w) = Return (h5err env (status env w2 c))
            \<and> fst (snd (Attribute_Read env s (VPtr (VString str)) w)) = VPtr (VString str)"
    unfolding eq by simp
  have 5: "\<exists>p q. filled_bytes env w2 c = p @ Trim (filled_bytes env w2 c) [NUL] @ q
                \<and> set p \<subseteq> {NUL} \<and> set q \<subseteq> {NUL}"
    using Trim_decomp [of "filled_bytes env w2 c" "[NUL]"] by simp
  have 6: "Trim (filled_bytes env w2 c) [NUL] = []
            \<or> (hd (Trim (filled_bytes env w2 c) [NUL]) \<noteq> NUL
                \<and> last (Trim (filled_bytes env w2 c) [NUL]) \<noteq> NUL)"
    using Trim_ends [of "filled_bytes env w2 c" "[NUL]"] by simp
  have 7: "\<exists>str'. fst (snd (Dataset_ReadSubset env d (VPtr (VString str)) memspace filespace w))
                    = VPtr (VString str') \<and> length str' = length str"
    by (simp add: case_prod_beta Dataset_ReadSubset_tail_def read_bytes_def NewDataTypeFromType_def
        split: option.splits)
  from 1 2 3 4 5 6 7 show ?thesis by blast
qed

theorem Attribute_Read_text_witness:
  "Kind_of_Type (GoType lib_ok 8) = String
   \<and> h5err lib_ok 0 = None
   \<and> Attribute_Read lib_ok \<lparr>hid = 4\<rparr> (VPtr (VString ''12345678'')) []
       = (Return None, VPtr (VString ''hello''),
          [(H5Tclose 8, 0), (H5Aread 4 8 (StrVar ''12345678''), 0),
           (H5Aget_storage_size 4, 8), (H5Aget_type 4, 8)])"
proof -
  have h: "8 = status lib_ok [] (H5Aget_type (hid \<lparr>hid = 4\<rparr>))"
    by (simp add: lib_ok_def)
  have sz: "8 = status lib_ok ((H5Aget_type (hid \<lparr>hid = 4\<rparr>), 8) # [])
                  (H5Aget_storage_size (hid \<lparr>hid = 4\<rparr>))"
    by (simp add: lib_ok_def)
  have buf: "''12345678'' = (if go_int 8 \<le> int (length ''12345678'')
               then take (nat (go_int 8)) ''12345678'' else replicate (nat (go_int 8)) NUL)"
    by (simp add: go_int_def)
  have k: "Kind_of_Type (GoType lib_ok 8) = String" by (simp add: lib_ok_def)
  have p: "0 \<le> go_int 8" by (simp add: go_int_def)
  have e: "h5err lib_ok 0 = None" by (simp add: lib_ok_def)
  have st: "status lib_ok w (H5Aread a t b) = 0" for w a t b
    by (simp add: lib_ok_def)
  have f: "Trim (filled_bytes lib_ok w c) [NUL] = ''hello''" for w c
    by (simp add: lib_ok_def Trim_def)
  have w: "snd (snd (Attribute_Read lib_ok \<lparr>hid = 4\<rparr> (VPtr (VString ''12345678'')) []))
           = [(H5Tclose 8, 0), (H5Aread 4 8 (StrVar ''12345678''), 0),
              (H5Aget_storage_size 4, 8), (H5Aget_type 4, 8)]"
    by (simp add: lib_ok_def Attribute_GetType_def ffi_def Datatype_Close_def go_int_def Let_def)
  from Attribute_Read_text [OF h sz buf refl refl k p, of "\<lparr>hid = 6\<rparr>" None None]
  have "fst (Attribute_Read lib_ok \<lparr>hid = 4\<rparr> (VPtr (VString ''12345678'')) []) = Return None
        \<and> fst (snd (Attribute_Read lib_ok \<lparr>hid = 4\<rparr> (VPtr (VString ''12345678'')) []))
            = VPtr (VString ''hello'')"
    by (simp add: st e f del: Attribute_Read.simps Dataset_ReadSubset.simps)
  with w k e show ?thesis
    by (simp add: prod_eq_iff del: Attribute_Read.simps)
qed

text \<open>
  C3 as stated fails for datasets: the destination comes back with the padding the
  library wrote, and the history has no query of a storage size.
\<close>

theorem Dataset_Read_text_not_trimmed:
  "Dataset_Read lib_ok \<lparr>hid = 6\<rparr> (VPtr (VString ''12345678'')) []
     = (Return None, VPtr (VString (''hello'' @ [NUL, NUL, NUL])),
        [(H5Tclose 8, 0), (H5Dread 6 8 0 0 (Bytes ''12345678''), 0), (Derive TString, 8)])"
  by (simp add: lib_ok_def Dataset_Read_def NewDataTypeFromType_def Dataset_ReadSubset_tail_def
      read_bytes_def Datatype_Close_def ffi_def deferred_def space_id_def overlay_def)

subsection \<open>Storage types left open\<close>

text \<open>
  C5 fails in \<open>Attribute.Write\<close>: writing the \<^verbatim>\<open>int\<close> 42 derives the storage type \<open>7\<close>,
  writes with it and returns \<^verbatim>\<open>nil\<close>; no \<^verbatim>\<open>H5Tclose\<close> is in the history, and the type is
  open when the call has returned.
\<close>

theorem Attribute_Write_leaves_type_open:
  "Attribute_Write lib_ok \<lparr>hid = 3\<rparr> (VPtr (VOther ''int'' 42)) []
     = (Return None, [(H5Awrite 3 7 (Cells [VOther ''int'' 42]), 0), (Derive (Basic ''int''), 7)])
   \<and> open_types (snd (Attribute_Write lib_ok \<lparr>hid = 3\<rparr> (VPtr (VOther ''int'' 42)) [])) = [7]"
  by (simp add: lib_ok_def Attribute_Write_tail_def NewDataTypeFromType_def ffi_def)

subsection \<open>Write, then Read\<close>

lemma Attribute_Write_tail_ok:
  assumes "Attribute_Write_tail env s t buf w = (Return None, w1)"
  shows "\<exists>dh. transfers w1 = H5Awrite (hid s) dh buf # transfers w"
  using assms
  by (auto simp add: Attribute_Write_tail_def NewDataTypeFromType_def ffi_def transfers_Cons
      split: option.splits)

lemma Attribute_Write_hands_over:
  assumes "fixed_shape v" and "Attribute_Write env s (VPtr v) w = (Return None, w1)"
  shows "\<exists>dh. transfers w1 = H5Awrite (hid s) dh (Cells (elements v)) # transfers w"
  using assms by (cases v) (simp_all add: Attribute_Write_tail_ok)

lemma Attribute_Write_hands_over_text:
  assumes "Attribute_Write env s (VPtr (VString str)) w = (Return None, w1)"
  shows "\<exists>dh. transfers w1 = H5Awrite (hid s) dh (StrVar str) # transfers w"
  using assms by (simp add: Attribute_Write_tail_ok)

lemma WriteSubset_addr_fixed:
  "fixed_shape v \<Longrightarrow> WriteSubset_addr (VPtr v) = Inr (Cells (elements v))"
  by (cases v) simp_all

lemma Dataset_Write_hands_over:
  assumes "fixed_shape v" and "Dataset_Write env d (VPtr v) w = (Return None, w1)"
  shows "\<exists>dh. transfers w1 = H5Dwrite (hid d) dh 0 0 (Cells (elements v)) # transfers w"
proof -
  let ?r = "status env w (H5Dget_type (hid d))"
  from assms(2) have neg: "\<not> ?r < 0"
    by (auto simp add: Dataset_Write_def Dataset_WriteSubset_def Dataset_Datatype_def ffi_def
        Datatype_Close_None deferred_Panic case_prod_beta)
  from assms(2) have "w1 = snd (Dataset_Write env d (VPtr v) w)" by simp
  with neg assms(1) have "transfers w1 = H5Dwrite (hid d) ?r 0 0 (Cells (elements v)) # transfers w"
    by (simp add: Dataset_Write_def Dataset_WriteSubset_def Dataset_Datatype_def ffi_def
        WriteSubset_addr_fixed case_prod_beta transfers_Datatype_Close transfers_Cons space_id_def)
  then show ?thesis by blast
qed

lemma overlay_prefix:
  assumes "take (length xs) new = xs"
  shows "overlay new (replicate (length xs) z) = xs"
proof -
  from assms have "length (take (length xs) new) = length xs" by simp
  then have "length xs \<le> length new" by simp
  with assms show ?thesis by (simp add: overlay_def)
qed

lemma Attribute_Read_back:
  assumes "fixed_shape v"
    and "h = status env w1 (H5Aget_type (hid s))"
    and "wr = (H5Aget_type (hid s), h) # w1"
    and "c = H5Aread (hid s) h (Cells (elements (zero_of (Type_of v))))"
    and "GoType env h = transfer_type v"
    and "take (length (elements v)) (filled_cells env wr c) = elements v"
    and "h5err env (status env wr c) = None"
  shows "fst (Attribute_Read env s (VPtr (zero_of (Type_of v))) w1) = Return None
       \<and> fst (snd (Attribute_Read env s (VPtr (zero_of (Type_of v))) w1)) = VPtr v"
proof (cases v)
  case (VOther n p)
  with assms(6) obtain ys where f: "filled_cells env wr c = VOther n p # ys"
    by (cases "filled_cells env wr c") simp_all
  from VOther assms(2,3,4,5,7) f show ?thesis
    by (simp add: Attribute_GetType_def ffi_def case_prod_beta Let_def
        Datatype_Close_Some_deferred)
next
  case (VArray t xs)
  show ?thesis
  proof (cases "xs = []")
    case True
    with VArray show ?thesis
      by (simp add: Attribute_GetType_def ffi_def case_prod_beta Datatype_Close_Some_deferred)
  next
    case False
    from VArray assms(6) have "overlay (filled_cells env wr c) (replicate (length xs) (zero_of t)) = xs"
      by (simp add: overlay_prefix)
    with False VArray assms(2,3,4,5,7) show ?thesis
      by (simp add: Attribute_GetType_def ffi_def case_prod_beta read_cells_def
          Datatype_Close_Some_deferred)
  qed
qed (use assms(1) in simp_all)

lemma Dataset_Read_back:
  assumes "fixed_shape v"
    and "derive env w1 (transfer_type v) = Some th"
    and "wr = (Derive (transfer_type v), th) # w1"
    and "c = H5Dread (hid d) th 0 0 (Cells (elements (zero_of (Type_of v))))"
    and "take (length (elements v)) (filled_cells env wr c) = elements v"
    and "h5err env (status env wr c) = None"
  shows "fst (Dataset_Read env d (VPtr (zero_of (Type_of v))) w1) = Return None
       \<and> fst (snd (Dataset_Read env d (VPtr (zero_of (Type_of v))) w1)) = VPtr v"
proof (cases v)
  case (VOther n p)
  with assms(5) obtain ys where f: "filled_cells env wr c = VOther n p # ys"
    by (cases "filled_cells env wr c") simp_all
  then have o: "overlay (filled_cells env wr c) [VOther n 0] = [VOther n p]"
    by (simp add: overlay_def)
  from VOther assms(2,3,4,6) o show ?thesis
    by (simp add: Dataset_Read_def NewDataTypeFromType_ok Dataset_ReadSubset_tail_def
        read_cells_def case_prod_beta space_id_def Datatype_Close_Some_deferred)
next
  case (VArray t xs)
  from VArray assms(5) have "overlay (filled_cells env wr c) (replicate (length xs) (zero_of t)) = xs"
    by (simp add: overlay_prefix)
  with VArray assms(2,3,4,6) show ?thesis
    by (simp add: Dataset_Read_def NewDataTypeFromType_ok Dataset_ReadSubset_tail_def
        read_cells_def case_prod_beta space_id_def Datatype_Close_Some_deferred)
qed (use assms(1) in simp_all)

lemma Dataset_Read_empty_text:
  "fst (snd (Dataset_Read env d (VPtr (zero_of TString)) w1)) = VPtr (VString [])"
  by (simp add: Dataset_Read_def case_prod_beta Dataset_ReadSubset_tail_def read_bytes_def
      NewDataTypeFromType_def split: option.splits)

lemma Trim_padded: "Trim (s @ replicate k c) [c] = Trim s [c]"
proof -
  have "dropWhile (\<lambda>x. x = c) (replicate k c @ ys) = dropWhile (\<lambda>x. x = c) ys" for ys
    by (induction k) simp_all
  then have r: "dropWhile (\<lambda>x. x = c) (rev (zs @ replicate k c)) = dropWhile (\<lambda>x. x = c) (rev zs)" for zs
    by simp
  show ?thesis
  proof (cases "\<forall>x\<in>set s. x = c")
    case True
    then have "\<forall>x\<in>set (s @ replicate k c). x = c" by auto
    then have d1: "dropWhile (\<lambda>x. x = c) (s @ replicate k c) = []"
      by (simp only: dropWhile_eq_Nil_conv)
    from True have d2: "dropWhile (\<lambda>x. x = c) s = []"
      by (simp only: dropWhile_eq_Nil_conv)
    have P: "(\<lambda>x. x \<in> set [c]) = (\<lambda>x. x = c)" by simp
    show ?thesis by (simp only: Trim_def P d1 d2)
  next
    case False
    then have "dropWhile (\<lambda>x. x = c) (s @ replicate k c) = dropWhile (\<lambda>x. x = c) s @ replicate k c"
      by (auto simp add: dropWhile_append1)
    then show ?thesis by (simp add: Trim_def r del: rev_append)
  qed
qed

lemma Trim_clean:
  assumes "s = [] \<or> (hd s \<notin> set cs \<and> last s \<notin> set cs)"
  shows "Trim s cs = s"
proof (cases "s = []")
  case True
  then show ?thesis by (simp add: Trim_def)
next
  case False
  with assms have h: "hd s \<notin> set cs" and l: "last s \<notin> set cs" by simp_all
  from False h have 1: "dropWhile (\<lambda>c. c \<in> set cs) s = s"
    by (cases s) simp_all
  from False l have 2: "dropWhile (\<lambda>c. c \<in> set cs) (rev s) = rev s"
    by (cases "rev s") (simp_all add: last_rev [symmetric] hd_rev)
  show ?thesis by (simp add: Trim_def 1 2)
qed

lemma Attribute_Read_back_text:
  assumes "h = status env w1 (H5Aget_type (hid s))"
    and "sz = status env ((H5Aget_type (hid s), h) # w1) (H5Aget_storage_size (hid s))"
    and "c = H5Aread (hid s) h (StrVar (replicate (nat (go_int sz)) NUL))"
    and "wr = (H5Aget_storage_size (hid s), sz) # (H5Aget_type (hid s), h) # w1"
    and "Kind_of_Type (GoType env h) = String" and "0 \<le> go_int sz"
    and "filled_bytes env wr c = str @ replicate k NUL"
    and "h5err env (status env wr c) = None"
  shows "fst (Attribute_Read env s (VPtr (zero_of TString)) w1) = Return None
       \<and> fst (snd (Attribute_Read env s (VPtr (zero_of TString)) w1))
           = VPtr (VString (Trim str [NUL]))"
proof -
  have b: "replicate (nat (go_int sz)) NUL
           = (if go_int sz \<le> int (length ([]::string)) then take (nat (go_int sz)) []
              else replicate (nat (go_int sz)) NUL)"
    using assms(6) by simp
  have "Attribute_Read env s (VPtr (VString [])) w1
      = (if h5err env (status env wr c) \<noteq> None then Return (h5err env (status env wr c))
         else Return None,
         VPtr (VString (if h5err env (status env wr c) \<noteq> None then []
                        else Trim (filled_bytes env wr c) [NUL])),
         snd (Datatype_Close env (Some \<lparr>hid = h\<rparr>) ((c, status env wr c) # wr)))"
    by (rule Attribute_Read_VString [OF assms(1) assms(2) b assms(3) assms(4) assms(5) assms(6)])
  with assms(7,8) show ?thesis
    by (simp add: Trim_padded del: Attribute_Read.simps)
qed

text \<open>
  C1, as the code has it. Write, then Read into the zero value of the same type, from the
  history \<open>w1\<close> that the write left.

  An array or a scalar \<open>v\<close>, on an attribute and on a dataset: a successful \<open>Write\<close> hands
  the cells of \<open>v\<close> to the library. When the raw read of \<open>Read\<close> delivers these cells and
  succeeds (and, for an attribute, the type queried has the Go type of the elements; for
  a dataset, the element type has a storage type), the destination is \<open>v\<close>.

  A text \<open>str\<close> on an attribute: a successful \<open>Write\<close> hands \<open>str\<close> to the library. When the
  raw read delivers \<open>str\<close> followed by padding, the destination is \<open>str\<close> with the padding
  characters of both its ends stripped; stripping again changes nothing, and this is
  \<open>str\<close> itself when \<open>str\<close> neither begins nor ends with a padding character.

  A text on a dataset: whatever the library does, the zero-valued destination of \<open>Read\<close>
  stays the empty text.
\<close>

theorem Write_then_Read:
  "(fixed_shape v \<and> Attribute_Write env s (VPtr v) w = (Return None, w1) \<longrightarrow>
      (\<exists>dh. transfers w1 = H5Awrite (hid s) dh (Cells (elements v)) # transfers w))
   \<and> (fixed_shape v
       \<and> h = status env w1 (H5Aget_type (hid s)) \<and> GoType env h = transfer_type v
       \<and> wr = (H5Aget_type (hid s), h) # w1
       \<and> c = H5Aread (hid s) h (Cells (elements (zero_of (Type_of v))))
       \<and> take (length (elements v)) (filled_cells env wr c) = elements v
       \<and> h5err env (status env wr c) = None \<longrightarrow>
      fst (Attribute_Read env s (VPtr (zero_of (Type_of v))) w1) = Return None
      \<and> fst (snd (Attribute_Read env s (VPtr (zero_of (Type_of v))) w1)) = VPtr v)
   \<and> (Attribute_Write env s (VPtr (VString str)) w = (Return None, w1) \<longrightarrow>
      (\<exists>dh. transfers w1 = H5Awrite (hid s) dh (StrVar str) # transfers w))
   \<and> (h = status env w1 (H5Aget_type (hid s)) \<and> Kind_of_Type (GoType env h) = String
       \<and> sz = status env ((H5Aget_type (hid s), h) # w1) (H5Aget_storage_size (hid s))
       \<and> 0 \<le> go_int sz
       \<and> ct = H5Aread (hid s) h (StrVar (replicate (nat (go_int sz)) NUL))
       \<and> wt = (H5Aget_storage_size (hid s), sz) # (H5Aget_type (hid s), h) # w1
       \<and> filled_bytes env wt ct = str @ replicate k NUL
       \<and> h5err env (status env wt ct) = None \<longrightarrow>
      fst (Attribute_Read env s (VPtr (zero_of TString)) w1) = Return None
      \<and> fst (snd (Attribute_Read env s (VPtr (zero_of TString)) w1))
          = VPtr (VString (Trim str [NUL]))
      \<and> Trim (Trim str [NUL]) [NUL] = Trim str [NUL]
      \<and> (str = [] \<or> (hd str \<noteq> NUL \<and> last str \<noteq> NUL) \<longrightarrow> Trim str [NUL] = str))
   \<and> (fixed_shape v \<and> Dataset_Write env d (VPtr v) w = (Return None, w1) \<longrightarrow>
      (\<exists>dh. transfers w1 = H5Dwrite (hid d) dh 0 0 (Cells (elements v)) # transfers w))
   \<and> (fixed_shape v
       \<and> derive env w1 (transfer_type v) = Some th
       \<and> wd = (Derive (transfer_type v), th) # w1
       \<and> cd = H5Dread (hid d) th 0 0 (Cells (elements (zero_of (Type_of v))))
       \<and> take (length (elements v)) (filled_cells env wd cd) = elements v
       \<and> h5err env (status env wd cd) = None \<longrightarrow>
      fst (Dataset_Read env d (VPtr (zero_of (Type_of v))) w1) = Return None
      \<and> fst (snd (Dataset_Read env d (VPtr (zero_of (Type_of v))) w1)) = VPtr v)
   \<and> fst (snd (Dataset_Read env d (VPtr (zero_of TString)) w1)) = VPtr (VString [])"
proof -
  have clean: "Trim (Trim str [NUL]) [NUL] = Trim str [NUL]"
    using Trim_ends [of str "[NUL]"] by (intro Trim_clean) simp
  have keep: "str = [] \<or> (hd str \<noteq> NUL \<and> last str \<noteq> NUL) \<longrightarrow> Trim str [NUL] = str"
    by (auto intro!: Trim_clean)
  show ?thesis
    using Attribute_Write_hands_over [of v env s w w1]
      Attribute_Read_back [of v h env w1 s wr c]
      Attribute_Write_hands_over_text [of env s str w w1]
      Attribute_Read_back_text [of h env w1 s sz ct wt str k]
      Dataset_Write_hands_over [of v env d w w1]
      Dataset_Read_back [of v env w1 th wd cd d]
      Dataset_Read_empty_text [of env d w1]
      clean keep
    by blast
qed

theorem Write_then_Read_witness:
  "Attribute_Write lib_echo \<lparr>hid = 3\<rparr> (VPtr (VOther ''int'' 42)) []
     = (Return None, [(H5Awrite 3 7 (Cells [VOther ''int'' 42]), 0), (Derive (Basic ''int''), 7)])
   \<and> GoType lib_echo 7 = transfer_type (VOther ''int'' 42)
   \<and> fst (Attribute_Read lib_echo \<lparr>hid = 3\<rparr> (VPtr (zero_of (Type_of (VOther ''int'' 42))))
            [(H5Awrite 3 7 (Cells [VOther ''int'' 42]), 0), (Derive (Basic ''int''), 7)])
       = Return None
   \<and> fst (snd (Attribute_Read lib_echo \<lparr>hid = 3\<rparr> (VPtr (zero_of (Type_of (VOther ''int'' 42))))
            [(H5Awrite 3 7 (Cells [VOther ''int'' 42]), 0), (Derive (Basic ''int''), 7)]))
       = VPtr (VOther ''int'' 42)
   \<and> Attribute_Write lib_echo \<lparr>hid = 4\<rparr> (VPtr (VString ''hello'')) []
     = (Return None, [(H5Awrite 4 8 (StrVar ''hello''), 0), (Derive TString, 8)])
   \<and> Kind_of_Type (GoType lib_echo 8) = String
   \<and> fst (snd (Attribute_Read lib_echo \<lparr>hid = 4\<rparr> (VPtr (zero_of TString))
            [(H5Awrite 4 8 (StrVar ''hello''), 0), (Derive TString, 8)]))
       = VPtr (VString ''hello'')
   \<and> Dataset_Write lib_echo \<lparr>hid = 5\<rparr>
        (VPtr (VArray (Basic ''float64'') [VOther ''float64'' 1, VOther ''float64'' 2])) []
     = (Return None,
        [(H5Tclose 7, 0),
         (H5Dwrite 5 7 0 0 (Cells [VOther ''float64'' 1, VOther ''float64'' 2]), 0),
         (H5Dget_type 5, 7)])
   \<and> fst (snd (Dataset_Read lib_echo \<lparr>hid = 5\<rparr>
        (VPtr (zero_of (Type_of (VArray (Basic ''float64'') [VOther ''float64'' 1, VOther ''float64'' 2]))))
        [(H5Tclose 7, 0),
         (H5Dwrite 5 7 0 0 (Cells [VOther ''float64'' 1, VOther ''float64'' 2]), 0),
         (H5Dget_type 5, 7)]))
       = VPtr (VArray (Basic ''float64'') [VOther ''float64'' 1, VOther ''float64'' 2])"
proof -
  let ?s = "\<lparr>hid = 3\<rparr>" and ?t = "\<lparr>hid = 4\<rparr>" and ?d = "\<lparr>hid = 5\<rparr>"
  let ?v = "VOther ''int'' 42"
  let ?a = "VArray (Basic ''float64'') [VOther ''float64'' 1, VOther ''float64'' 2]"
  let ?wA = "[(H5Awrite 3 7 (Cells [?v]), 0), (Derive (Basic ''int''), 7)]"
  let ?wB = "[(H5Awrite 4 8 (StrVar ''hello''), 0), (Derive TString, 8)]"
  let ?wC = "[(H5Tclose 7, 0),
              (H5Dwrite 5 7 0 0 (Cells [VOther ''float64'' 1, VOther ''float64'' 2]), 0),
              (H5Dget_type 5, 7)]"
  let ?cA = "H5Aread 3 7 (Cells [VOther ''int'' 0])"
  let ?cB = "H5Aread 4 8 (StrVar (replicate 8 NUL))"
  let ?cC = "H5Dread 5 7 0 0 (Cells [VOther ''float64'' 0, VOther ''float64'' 0])"
  have wA: "Attribute_Write lib_echo ?s (VPtr ?v) [] = (Return None, ?wA)"
    by (simp add: lib_echo_def Attribute_Write_tail_def NewDataTypeFromType_def ffi_def)
  have wB: "Attribute_Write lib_echo ?t (VPtr (VString ''hello'')) [] = (Return None, ?wB)"
    by (simp add: lib_echo_def Attribute_Write_tail_def NewDataTypeFromType_def ffi_def)
  have wC: "Dataset_Write lib_echo ?d (VPtr ?a) [] = (Return None, ?wC)"
    by (simp add: lib_echo_def Dataset_Write_def Dataset_WriteSubset_def Dataset_Datatype_def
        ffi_def Datatype_Close_def deferred_def space_id_def)
  have gA: "GoType lib_echo 7 = transfer_type ?v" by (simp add: lib_echo_def)
  have gB: "Kind_of_Type (GoType lib_echo 8) = String" by (simp add: lib_echo_def)
  have A: "fst (Attribute_Read lib_echo ?s (VPtr (zero_of (Type_of ?v))) ?wA) = Return None
           \<and> fst (snd (Attribute_Read lib_echo ?s (VPtr (zero_of (Type_of ?v))) ?wA)) = VPtr ?v"
  proof -
    have 1: "7 = status lib_echo ?wA (H5Aget_type (hid ?s))" by (simp add: lib_echo_def)
    have 2: "?cA = H5Aread (hid ?s) 7 (Cells (elements (zero_of (Type_of ?v))))" by simp
    have 3: "take (length (elements ?v)) (filled_cells lib_echo ((H5Aget_type (hid ?s), 7) # ?wA) ?cA)
             = elements ?v"
      by (simp add: lib_echo_def)
    have 4: "h5err lib_echo (status lib_echo ((H5Aget_type (hid ?s), 7) # ?wA) ?cA) = None"
      by (simp add: lib_echo_def)
    have 5: "fixed_shape ?v" by simp
    from Write_then_Read [of ?v lib_echo ?s "[]" ?wA 7 "(H5Aget_type (hid ?s), 7) # ?wA" ?cA
        "[]" 0 ?cA "[]" 0 ?d 0 "[]" ?cA] 1 2 3 4 5 gA
    show ?thesis by blast
  qed
  have B: "fst (snd (Attribute_Read lib_echo ?t (VPtr (zero_of TString)) ?wB))
           = VPtr (VString ''hello'')"
  proof -
    have 1: "8 = status lib_echo ?wB (H5Aget_type (hid ?t))" by (simp add: lib_echo_def)
    have 2: "8 = status lib_echo ((H5Aget_type (hid ?t), 8) # ?wB) (H5Aget_storage_size (hid ?t))"
      by (simp add: lib_echo_def)
    have 3: "0 \<le> go_int 8" by (simp add: go_int_def)
    have 4: "?cB = H5Aread (hid ?t) 8 (StrVar (replicate (nat (go_int 8)) NUL))"
      by (simp add: go_int_def)
    have 5: "filled_bytes lib_echo ((H5Aget_storage_size (hid ?t), 8) # (H5Aget_type (hid ?t), 8) # ?wB) ?cB
             = ''hello'' @ replicate 3 NUL"
      by (simp add: lib_echo_def eval_nat_numeral)
    have 6: "h5err lib_echo (status lib_echo
               ((H5Aget_storage_size (hid ?t), 8) # (H5Aget_type (hid ?t), 8) # ?wB) ?cB) = None"
      by (simp add: lib_echo_def)
    have 7: "''hello'' = [] \<or> (hd ''hello'' \<noteq> NUL \<and> last ''hello'' \<noteq> NUL)" by simp
    from Write_then_Read [of ?v lib_echo ?t "[]" ?wB 8 "[]" ?cB
        "''hello''" 8 ?cB "(H5Aget_storage_size (hid ?t), 8) # (H5Aget_type (hid ?t), 8) # ?wB"
        3 ?d 0 "[]" ?cB] 1 2 3 4 5 6 7 gB
    have "fst (snd (Attribute_Read lib_echo ?t (VPtr (zero_of TString)) ?wB))
            = VPtr (VString (Trim ''hello'' [NUL]))
          \<and> Trim ''hello'' [NUL] = ''hello''"
      by blast
    then show ?thesis by (simp only:)
  qed
  have C: "fst (snd (Dataset_Read lib_echo ?d (VPtr (zero_of (Type_of ?a))) ?wC)) = VPtr ?a"
  proof -
    have 1: "derive lib_echo ?wC (transfer_type ?a) = Some 7" by (simp add: lib_echo_def)
    have 2: "?cC = H5Dread (hid ?d) 7 0 0 (Cells (elements (zero_of (Type_of ?a))))"
      by (simp add: eval_nat_numeral)
    have 3: "take (length (elements ?a))
               (filled_cells lib_echo ((Derive (transfer_type ?a), 7) # ?wC) ?cC) = elements ?a"
      by (simp add: lib_echo_def)
    have 4: "h5err lib_echo (status lib_echo ((Derive (transfer_type ?a), 7) # ?wC) ?cC) = None"
      by (simp add: lib_echo_def)
    have 5: "fixed_shape ?a" by simp
    from Write_then_Read [of ?a lib_echo ?s "[]" ?wC 7 "[]" ?cA
        "[]" 0 ?cA "[]" 0 ?d 7 "(Derive (transfer_type ?a), 7) # ?wC" ?cC] 1 2 3 4 5
    show ?thesis by blast
  qed
  from wA wB wC gA gB A B C show ?thesis by (simp only:)
qed

text \<open>
  C1 as stated fails for text on a dataset: with the library that keeps what it is given,
  \<open>Write\<close> of \<^verbatim>\<open>hello\<close> and \<open>Read\<close> into the empty text both succeed, and the destination is
  the empty text.
\<close>

theorem Dataset_text_round_trip_fails:
  "Dataset_Write lib_echo \<lparr>hid = 6\<rparr> (VPtr (VString ''hello'')) []
     = (Return None,
        [(H5Tclose 8, 0), (H5Dwrite 6 8 0 0 (Bytes ''hello''), 0), (H5Dget_type 6, 8)])
   \<and> Dataset_Read lib_echo \<lparr>hid = 6\<rparr> (VPtr (zero_of (Type_of (VString ''hello''))))
        [(H5Tclose 8, 0), (H5Dwrite 6 8 0 0 (Bytes ''hello''), 0), (H5Dget_type 6, 8)]
     = (Return None, VPtr (VString []),
        [(H5Tclose 8, 0), (H5Dread 6 8 0 0 (Bytes []), 0), (Derive TString, 8),
         (H5Tclose 8, 0), (H5Dwrite 6 8 0 0 (Bytes ''hello''), 0), (H5Dget_type 6, 8)])
   \<and> VPtr (VString []) \<noteq> VPtr (VString ''hello'')"
  by (simp add: lib_echo_def Dataset_Write_def Dataset_WriteSubset_def Dataset_Datatype_def
      Dataset_Read_def NewDataTypeFromType_def Dataset_ReadSubset_tail_def read_bytes_def
      ffi_def Datatype_Close_def deferred_def space_id_def)

end
